theory Spec2Isabelle
  imports Complex_Main
begin

section \<open>AURA400: emotion encoder, circuit evaluator and metrics aggregator\<close>

text \<open>
  A shallow embedding of the two Python modules \<^verbatim>\<open>aura400_prod.py\<close> (class
  \<^verbatim>\<open>Aura400Circuit\<close>) and \<^verbatim>\<open>aura_live.py\<close> (class \<^verbatim>\<open>QuantumEmotionalCore\<close> and the
  request handlers that drive it).

  Conventions of the embedding:
  \<^item> Python \<^verbatim>\<open>float\<close> and numpy \<^verbatim>\<open>float64\<close> values are idealised as \<^typ>\<open>real\<close>, complex
    amplitudes as \<^typ>\<open>complex\<close>; rounding is not modelled.
  \<^item> Python \<^verbatim>\<open>int\<close> counters are \<^typ>\<open>int\<close>.
  \<^item> Everything a function reads from outside the program (the clock, the random
    generator, the UUID generator, the Qiskit backend) is an explicit argument.
  \<^item> An exception is a value \<open>Inl err\<close>; a function that mutates \<^verbatim>\<open>self\<close> returns the
    new object next to its result, also when it raises.
\<close>

datatype error = ValueError | IndexError | TypeError | ZeroDivisionError | LibraryError


section \<open>Module \<^verbatim>\<open>aura400_prod\<close>\<close>

subsection \<open>Configuration and the emotion table\<close>

text \<open>The dictionary \<^verbatim>\<open>EMOTIONS\<close>, in source order.\<close>

definition EMOTIONS :: "(string \<times> real) list" where
  "EMOTIONS =
     [(''alegria'', 0.9), (''tristeza'', 0.1), (''miedo'', 0.2), (''ira'', 0.3),
      (''sorpresa'', 0.8), (''asco'', 0.15), (''confianza'', 0.7), (''anticipacion'', 0.6)]"

text \<open>\<^verbatim>\<open>d.get(key, default)\<close> on a dictionary given as an association list.\<close>

definition dict_get :: "('k \<times> 'v) list \<Rightarrow> 'k \<Rightarrow> 'v \<Rightarrow> 'v" where
  "dict_get d k dflt = (case map_of d k of None \<Rightarrow> dflt | Some v \<Rightarrow> v)"

text \<open>
  \<^verbatim>\<open>str.lower()\<close>. Strings are byte lists here; the letters \<^verbatim>\<open>A\<close> to \<^verbatim>\<open>Z\<close> are mapped
  to \<^verbatim>\<open>a\<close> to \<^verbatim>\<open>z\<close> and every other byte is kept.
\<close>

definition lower_char :: "char \<Rightarrow> char" where
  "lower_char c =
     (case map_of (zip ''ABCDEFGHIJKLMNOPQRSTUVWXYZ'' ''abcdefghijklmnopqrstuvwxyz'') c of
        None \<Rightarrow> c
      | Some l \<Rightarrow> l)"

definition lower :: "string \<Rightarrow> string" where
  "lower s = map lower_char s"

subsection \<open>The circuit object\<close>

record run_metrics =
  m_fidelity :: real
  m_shots :: int
  m_backend :: string
  m_n_cells :: nat
  m_qubits_per_cell :: nat
  m_total_qubits :: nat

record run_result =
  state_vector :: "complex list"
  res_metrics :: run_metrics

record Aura400Circuit =
  n_cells :: nat
  qubits_per_cell :: nat
  total_qubits :: nat
  backend_name :: string
  last_result :: "run_result option"

text \<open>\<^verbatim>\<open>Aura400Circuit.__init__\<close>.\<close>

definition Aura400Circuit_init :: "nat \<Rightarrow> nat \<Rightarrow> string \<Rightarrow> Aura400Circuit" where
  "Aura400Circuit_init n q b =
     \<lparr>n_cells = n, qubits_per_cell = q, total_qubits = n * q, backend_name = b,
      last_result = None\<rparr>"

subsection \<open>The encoder \<^verbatim>\<open>emotion_to_params\<close>\<close>

text \<open>
  \<^verbatim>\<open>rng.normal(loc, scale, size=n)\<close>: the generator is given by its stream \<open>z\<close> of
  standard normal variates; numpy returns \<open>loc + scale * z i\<close> for the first \<open>n\<close> of them.
\<close>

definition rng_normal :: "(nat \<Rightarrow> real) \<Rightarrow> real \<Rightarrow> real \<Rightarrow> nat \<Rightarrow> real list" where
  "rng_normal z loc scale n = map (\<lambda>i. loc + scale * z i) [0..<n]"

text \<open>\<^verbatim>\<open>np.clip(a, lo, hi)\<close>, elementwise \<^verbatim>\<open>minimum(maximum(a, lo), hi)\<close>.\<close>

definition np_clip :: "real list \<Rightarrow> real \<Rightarrow> real \<Rightarrow> real list" where
  "np_clip a lo hi = map (\<lambda>x. min (max x lo) hi) a"

definition emotion_to_params :: "Aura400Circuit \<Rightarrow> (nat \<Rightarrow> real) \<Rightarrow> string \<Rightarrow> real \<Rightarrow> real list" where
  "emotion_to_params self z emotion intensity =
     (let base = dict_get EMOTIONS (lower emotion) 0.5
      in np_clip (rng_normal z (base * intensity) 0.05 (n_cells self)) 0 1)"

text \<open>
  The encoder as the specification words it for a given base value: one entry per cell,
  normal with mean \<open>base \<times> intensity\<close> and standard deviation 0.05, clipped to \<open>[0,1]\<close>.
\<close>

definition spec_encoder :: "nat \<Rightarrow> (nat \<Rightarrow> real) \<Rightarrow> real \<Rightarrow> real \<Rightarrow> real list" where
  "spec_encoder cells z base intensity =
     map (\<lambda>i. min (max (base * intensity + 0.05 * z i) 0) 1) [0..<cells]"

subsection \<open>\<^verbatim>\<open>build_circuit\<close>\<close>

datatype gate =
    H nat
  | CRY nat nat
  | CZ nat nat
  | SWAP nat nat
  | RY nat nat

text \<open>
  \<^verbatim>\<open>range(0, total_qubits, qubits_per_cell)\<close>: Python raises \<^verbatim>\<open>ValueError\<close> for a zero
  step; otherwise the range holds the multiples of \<^verbatim>\<open>qubits_per_cell\<close> below
  \<^verbatim>\<open>total_qubits\<close>, the first qubit of every cell.
\<close>

definition cell_starts :: "Aura400Circuit \<Rightarrow> error + nat list" where
  "cell_starts self =
     (if qubits_per_cell self = 0 then Inl ValueError
      else Inr (filter (\<lambda>i. i mod qubits_per_cell self = 0) [0..<total_qubits self]))"

definition intra_cell_gates :: "Aura400Circuit \<Rightarrow> nat \<Rightarrow> gate list" where
  "intra_cell_gates self i =
     (if i + 1 < total_qubits self then [CRY i (i + 1)] else [])
     @ (if i + 2 < total_qubits self \<and> i + 3 < total_qubits self
        then [CRY (i + 2) (i + 3), CZ (i + 1) (i + 2)] else [])"

text \<open>\<^verbatim>\<open>qc.swap(i, j)\<close> is refused by Qiskit when both arguments are the same qubit.\<close>

fun inter_cell_gates :: "Aura400Circuit \<Rightarrow> nat list \<Rightarrow> error + gate list" where
  "inter_cell_gates self [] = Inr []"
| "inter_cell_gates self (i # is) =
     (let j = (i + qubits_per_cell self) mod total_qubits self
      in if i = j then Inl LibraryError
         else case inter_cell_gates self is of
                Inl e \<Rightarrow> Inl e
              | Inr gs \<Rightarrow> Inr (SWAP i j # gs))"

text \<open>
  The Hadamard layer \<^verbatim>\<open>qc.h(range(total_qubits))\<close> comes first; Qiskit refuses it on a
  circuit without qubits, before any of the three loops runs. Every exception is logged
  by \<^verbatim>\<open>build_circuit\<close> and raised again.
\<close>

definition build_circuit :: "Aura400Circuit \<Rightarrow> error + gate list" where
  "build_circuit self =
     (if total_qubits self = 0 then Inl LibraryError
      else case cell_starts self of
        Inl e \<Rightarrow> Inl e
      | Inr starts \<Rightarrow>
          (case inter_cell_gates self starts of
             Inl e \<Rightarrow> Inl e
           | Inr swaps \<Rightarrow>
               Inr (map H [0..<total_qubits self]
                    @ concat (map (intra_cell_gates self) starts)
                    @ swaps
                    @ map (\<lambda>i. RY (i div qubits_per_cell self) i) starts)))"

subsection \<open>\<^verbatim>\<open>execute_circuit\<close>\<close>

text \<open>
  The Qiskit pipeline after \<^verbatim>\<open>build_circuit\<close> (\<^verbatim>\<open>bind_parameters\<close>, \<^verbatim>\<open>transpile\<close>,
  \<^verbatim>\<open>backend.run\<close>, \<^verbatim>\<open>get_statevector\<close>) is the argument \<open>run\<close>: it maps the circuit,
  the parameter values and the shot count to the state vector, or to \<open>None\<close> when one
  of the calls raises. Every exception is logged and raised again; one that comes out
  of \<^verbatim>\<open>build_circuit\<close> has been logged there already. The third component of the
  result lists what the call did to the outside world, in order. For a non-empty
  \<^verbatim>\<open>save_to\<close> the file is opened after \<^verbatim>\<open>last_result\<close> has been set, and
  \<^verbatim>\<open>json.dump\<close> raises \<^verbatim>\<open>TypeError\<close> on the complex amplitudes of the state vector.
\<close>

datatype effect =
    CircuitBuilt
  | PipelineCalled "real list" int
  | FileOpened string
  | LoggedError

type_synonym backend = "gate list \<Rightarrow> real list \<Rightarrow> int \<Rightarrow> complex list option"

definition execute_circuit ::
  "backend \<Rightarrow> Aura400Circuit \<Rightarrow> real list \<Rightarrow> int \<Rightarrow> string option
     \<Rightarrow> (error + run_result) \<times> Aura400Circuit \<times> effect list" where
  "execute_circuit run self parameter_values shots save_to =
     (if length parameter_values \<noteq> n_cells self then (Inl ValueError, self, [LoggedError])
      else case build_circuit self of
        Inl e \<Rightarrow> (Inl e, self, [LoggedError, LoggedError])
      | Inr circuit \<Rightarrow>
     (case run circuit parameter_values shots of
        None \<Rightarrow> (Inl LibraryError, self,
                 [CircuitBuilt, PipelineCalled parameter_values shots, LoggedError])
      | Some sv \<Rightarrow>
          (case sv of
             [] \<Rightarrow> (Inl IndexError, self,
                     [CircuitBuilt, PipelineCalled parameter_values shots, LoggedError])
           | a0 # _ \<Rightarrow>
               let result =
                     \<lparr>state_vector = sv,
                      res_metrics =
                        \<lparr>m_fidelity = (cmod a0)\<^sup>2, m_shots = shots,
                         m_backend = backend_name self, m_n_cells = n_cells self,
                         m_qubits_per_cell = qubits_per_cell self,
                         m_total_qubits = total_qubits self\<rparr>\<rparr>;
                   stored = self\<lparr>last_result := Some result\<rparr>;
                   done = (Inr result, stored,
                           [CircuitBuilt, PipelineCalled parameter_values shots])
               in case save_to of
                    None \<Rightarrow> done
                  | Some f \<Rightarrow>
                      if f = [] then done
                      else (Inl TypeError, stored,
                            [CircuitBuilt, PipelineCalled parameter_values shots,
                             FileOpened f, LoggedError]))))"


section \<open>Module \<^verbatim>\<open>aura_live\<close>\<close>

subsection \<open>State of \<^verbatim>\<open>QuantumEmotionalCore\<close>\<close>

record metrics_dict =
  executions :: int
  errors :: int
  avg_intensity :: real
  last_execution_time :: "real option"
  success_rate :: real
  start_time :: real

record core =
  emotion_state :: "real list"
  quantum_intensity :: real
  phase_coherence :: real
  entanglement_measure :: real
  emotional_vector :: "real list"
  sensor_feedback :: "(string \<times> real) list"
  session_id :: string
  metrics :: metrics_dict
  backend_type :: string
  qiskit_available :: bool

subsection \<open>What a call reads from outside\<close>

text \<open>
  \<open>init_env\<close>: what \<^verbatim>\<open>__init__\<close> reads. \<open>uniform_draw\<close> is the stream behind
  \<^verbatim>\<open>rng.random(8)\<close>, \<open>uuid4\<close> the text of \<^verbatim>\<open>uuid.uuid4()\<close>, \<open>now\<close> the clock;
  \<open>aer_imported\<close> tells whether importing \<^verbatim>\<open>qiskit_aer\<close> and getting the backend
  succeed, \<open>circuit_built\<close> whether \<^verbatim>\<open>build_quantum_circuit\<close> gets through its
  \<^verbatim>\<open>try\<close> block.
\<close>

record init_env =
  uniform_draw :: "nat \<Rightarrow> real"
  uuid4 :: string
  now :: real
  aer_imported :: bool
  circuit_built :: bool

text \<open>
  \<open>draws\<close>: what one run of \<^verbatim>\<open>classical_quantum_simulation\<close> or of
  \<^verbatim>\<open>update_emotional_state\<close> reads: the clock, the stream behind \<^verbatim>\<open>rng.random(8)\<close>
  and the value of \<^verbatim>\<open>rng.dirichlet(np.ones(8))\<close>. \<open>raises\<close> stands for a library call
  of the run raising an exception before anything is assigned.
\<close>

record draws =
  clock :: real
  noise :: "nat \<Rightarrow> real"
  dirichlet :: "real list"
  raises :: bool

text \<open>
  \<open>cycle_env\<close>: what one call of \<^verbatim>\<open>execute_quantum_emotion_cycle\<close> reads. \<open>qiskit\<close> is
  the outcome of the Qiskit calls of \<^verbatim>\<open>real_quantum_simulation\<close> on the current
  emotional vector: \<open>None\<close> when one of them raises, else the state vector together with
  the eigenvalues of the reduced density matrix (\<open>None\<close> when \<^verbatim>\<open>partial_trace\<close> or
  \<^verbatim>\<open>eigvalsh\<close> raises). \<open>body\<close> serves the \<^verbatim>\<open>try\<close> block, \<open>fallback\<close> the call of
  \<^verbatim>\<open>classical_quantum_simulation\<close> in the \<^verbatim>\<open>except\<close> block.
\<close>

record cycle_env =
  elapsed :: real
  qiskit :: "real list \<Rightarrow> (complex list \<times> real list option) option"
  body :: draws
  fallback :: draws

subsection \<open>\<^verbatim>\<open>__init__\<close> and \<^verbatim>\<open>reset\<close>\<close>

definition rng_random :: "(nat \<Rightarrow> real) \<Rightarrow> nat \<Rightarrow> real list" where
  "rng_random u n = map u [0..<n]"

definition init :: "init_env \<Rightarrow> core" where
  "init e =
     \<lparr>emotion_state = replicate 8 0,
      quantum_intensity = 0,
      phase_coherence = 0,
      entanglement_measure = 0,
      emotional_vector = rng_random (uniform_draw e) 8,
      sensor_feedback = [(''arousal'', 0.5), (''valence'', 0.5), (''dominance'', 0.5)],
      session_id = take 8 (uuid4 e),
      metrics =
        \<lparr>executions = 0, errors = 0, avg_intensity = 0, last_execution_time = None,
         success_rate = 100, start_time = now e\<rparr>,
      backend_type =
        (if aer_imported e then ''QISKIT_AER_SIMULATOR'' else ''CLASSICAL_QUANTUM_SIMULATION''),
      qiskit_available = (aer_imported e \<and> circuit_built e)\<rparr>"

text \<open>\<^verbatim>\<open>reset\<close> runs \<^verbatim>\<open>__init__\<close> again on the same object.\<close>

definition reset :: "init_env \<Rightarrow> core \<Rightarrow> core" where
  "reset e self = init e"

subsection \<open>\<^verbatim>\<open>update_emotional_state\<close>\<close>

text \<open>
  Elementwise \<^verbatim>\<open>+\<close> of two one-dimensional arrays, with numpy's broadcasting of a
  one-element array and its \<^verbatim>\<open>ValueError\<close> for any other mismatch of lengths.
\<close>

definition np_add :: "real list \<Rightarrow> real list \<Rightarrow> error + real list" where
  "np_add xs ys =
     (if length xs = length ys then Inr (map2 (+) xs ys)
      else if length xs = 1 then Inr (map (\<lambda>y. hd xs + y) ys)
      else if length ys = 1 then Inr (map (\<lambda>x. x + hd ys) xs)
      else Inl ValueError)"

definition update_emotional_state :: "draws \<Rightarrow> core \<Rightarrow> error + core" where
  "update_emotional_state d self =
     (let noise_vec = map (\<lambda>x. x * 0.1) (rng_random (noise d) 8)
      in case np_add (emotional_vector self) noise_vec of
           Inl e \<Rightarrow> Inl e
         | Inr base_state \<Rightarrow>
             if sum_list base_state > 0
             then Inr (self\<lparr>emotion_state := map (\<lambda>x. x / sum_list base_state) base_state\<rparr>)
             else Inr (self\<lparr>emotion_state := dirichlet d\<rparr>))"

subsection \<open>The running mean shared by both simulations\<close>

definition update_avg_intensity :: "core \<Rightarrow> core" where
  "update_avg_intensity self =
     (let m = metrics self
      in if executions m > 0
         then self\<lparr>metrics := m\<lparr>avg_intensity :=
                (avg_intensity m * real_of_int (executions m - 1) + quantum_intensity self)
                / real_of_int (executions m)\<rparr>\<rparr>
         else self\<lparr>metrics := m\<lparr>avg_intensity := quantum_intensity self\<rparr>\<rparr>)"

subsection \<open>\<^verbatim>\<open>classical_quantum_simulation\<close>\<close>

text \<open>\<^verbatim>\<open>np.angle(z)\<close> is \<^verbatim>\<open>arctan2(z.imag, z.real)\<close>, with values in \<open>(-\<pi>, \<pi>]\<close>.\<close>

definition arctan2 :: "real \<Rightarrow> real \<Rightarrow> real" where
  "arctan2 y x =
     (if 0 < x then arctan (y / x)
      else if x < 0 then (if 0 \<le> y then arctan (y / x) + pi else arctan (y / x) - pi)
      else if 0 < y then pi / 2
      else if y < 0 then - (pi / 2)
      else 0)"

definition np_angle :: "complex \<Rightarrow> real" where
  "np_angle z = arctan2 (Im z) (Re z)"

definition classical_intensity :: "real \<Rightarrow> real" where
  "classical_intensity t =
     (let base_freq = 0.1;
          q = (sin (t * base_freq) * cos (t * base_freq * 1.3) + 1) / 2
      in q * (1 + 0.3 * sin (t * 0.05)))"

definition classical_quantum_simulation :: "draws \<Rightarrow> core \<Rightarrow> (error + bool) \<times> core" where
  "classical_quantum_simulation d self =
     (if raises d then (Inl LibraryError, self)
      else
        let t = clock d;
            base_freq = 0.1;
            s1 = self\<lparr>quantum_intensity := classical_intensity t\<rparr>;
            s2 = s1\<lparr>phase_coherence :=
                      np_angle (Complex (cos (t * base_freq)) (sin (t * base_freq)))\<rparr>;
            s3 = s2\<lparr>entanglement_measure := 0.3 + 0.1 * sin (t * 0.02)\<rparr>
        in case update_emotional_state d s3 of
             Inl e \<Rightarrow> (Inl e, s3)
           | Inr s4 \<Rightarrow> (Inr True, update_avg_intensity s4))"

subsection \<open>\<^verbatim>\<open>_process_quantum_results\<close>\<close>

text \<open>\<^verbatim>\<open>np.outer\<close>, \<^verbatim>\<open>@\<close> on square matrices given as lists of rows, and \<^verbatim>\<open>np.trace\<close>.\<close>

definition np_outer :: "complex list \<Rightarrow> complex list \<Rightarrow> complex list list" where
  "np_outer a b = map (\<lambda>x. map (\<lambda>y. x * y) b) a"

definition matmul :: "complex list list \<Rightarrow> complex list list \<Rightarrow> complex list list" where
  "matmul A B =
     map (\<lambda>row. map (\<lambda>j. sum_list (map (\<lambda>k. row ! k * (B ! k) ! j) [0..<length B]))
                     [0..<length B]) A"

definition np_trace :: "complex list list \<Rightarrow> complex" where
  "np_trace A = sum_list (map (\<lambda>i. (A ! i) ! i) [0..<length A])"

definition purity :: "complex list \<Rightarrow> real" where
  "purity sv = (let rho = np_outer sv (map cnj sv) in Re (np_trace (matmul rho rho)))"

text \<open>
  The entropy of the reduced state. \<open>None\<close> is an exception inside the inner \<^verbatim>\<open>try\<close>,
  which sets the measure to \<open>0.0\<close>.
\<close>

definition entanglement_of :: "real list option \<Rightarrow> real" where
  "entanglement_of eigs =
     (case eigs of
        None \<Rightarrow> 0
      | Some ev \<Rightarrow> - sum_list (map (\<lambda>x. x * log 2 x) (filter (\<lambda>x. x > 1 / 10 ^ 12) ev)))"

definition process_quantum_results ::
  "draws \<Rightarrow> complex list \<Rightarrow> real list option \<Rightarrow> core \<Rightarrow> (error + unit) \<times> core" where
  "process_quantum_results d statevector eigs self =
     (let probabilities = map (\<lambda>a. (cmod a)\<^sup>2) statevector;
          s1 = self\<lparr>quantum_intensity := sum_list (take 8 probabilities)\<rparr>;
          s2 = s1\<lparr>phase_coherence := purity statevector\<rparr>;
          s3 = s2\<lparr>entanglement_measure := entanglement_of eigs\<rparr>
      in case update_emotional_state d s3 of
           Inl e \<Rightarrow> (Inl e, s3)
         | Inr s4 \<Rightarrow> (Inr (), update_avg_intensity s4))"

subsection \<open>\<^verbatim>\<open>real_quantum_simulation\<close>\<close>

text \<open>
  The whole body is inside \<^verbatim>\<open>try ... except Exception\<close>: any exception is logged and
  turned into the result \<^verbatim>\<open>False\<close>, whatever had been assigned before it.
\<close>

definition real_quantum_simulation :: "cycle_env \<Rightarrow> core \<Rightarrow> bool \<times> core" where
  "real_quantum_simulation env self =
     (case qiskit env (emotional_vector self) of
        None \<Rightarrow> (False, self)
      | Some (statevector, eigs) \<Rightarrow>
          (case process_quantum_results (body env) statevector eigs self of
             (Inl e, s') \<Rightarrow> (False, s')
           | (Inr u, s') \<Rightarrow> (True, s')))"

subsection \<open>\<^verbatim>\<open>execute_quantum_emotion_cycle\<close>\<close>

text \<open>The \<^verbatim>\<open>try\<close> block; \<open>Inl\<close> is an exception that reaches the \<^verbatim>\<open>except\<close> clause.\<close>

definition cycle_try :: "cycle_env \<Rightarrow> core \<Rightarrow> (error + bool) \<times> core" where
  "cycle_try env self =
     (case (if qiskit_available self
            then (case real_quantum_simulation env self of (b, s) \<Rightarrow> (Inr b, s))
            else classical_quantum_simulation (body env) self) of
        (Inl e, s1) \<Rightarrow> (Inl e, s1)
      | (Inr success, s1) \<Rightarrow>
          let s2 = s1\<lparr>metrics := (metrics s1)\<lparr>last_execution_time := Some (elapsed env)\<rparr>\<rparr>;
              s3 = s2\<lparr>metrics := (metrics s2)\<lparr>executions := executions (metrics s2) + 1\<rparr>\<rparr>
          in if success
             then (if executions (metrics s3) = 0 then (Inl ZeroDivisionError, s3)
                   else (Inr True,
                         s3\<lparr>metrics := (metrics s3)\<lparr>success_rate :=
                              real_of_int (executions (metrics s3) - errors (metrics s3))
                              / real_of_int (executions (metrics s3)) * 100\<rparr>\<rparr>))
             else (Inr False, s3))"

text \<open>The \<^verbatim>\<open>except\<close> clause.\<close>

definition cycle_except :: "cycle_env \<Rightarrow> core \<Rightarrow> (error + bool) \<times> core" where
  "cycle_except env self =
     (let s1 = self\<lparr>metrics := (metrics self)\<lparr>errors := errors (metrics self) + 1\<rparr>\<rparr>;
          s2 = s1\<lparr>metrics := (metrics s1)\<lparr>executions := executions (metrics s1) + 1\<rparr>\<rparr>;
          s3 = s2\<lparr>metrics := (metrics s2)\<lparr>success_rate :=
                 real_of_int (executions (metrics s2) - errors (metrics s2))
                 / real_of_int (max 1 (executions (metrics s2))) * 100\<rparr>\<rparr>
      in classical_quantum_simulation (fallback env) s3)"

definition execute_quantum_emotion_cycle :: "cycle_env \<Rightarrow> core \<Rightarrow> (error + bool) \<times> core" where
  "execute_quantum_emotion_cycle env self =
     (case cycle_try env self of
        (Inr success, s1) \<Rightarrow> (Inr success, s1)
      | (Inl e, s1) \<Rightarrow> cycle_except env s1)"

subsection \<open>The request handlers\<close>

definition LIVE_EMOTIONS :: "string list" where
  "LIVE_EMOTIONS =
     [''joy'', ''fear'', ''anger'', ''sadness'', ''surprise'', ''disgust'', ''trust'',
      ''anticipation'']"

fun index_of :: "string list \<Rightarrow> string \<Rightarrow> nat" where
  "index_of [] x = 0"
| "index_of (y # ys) x = (if y = x then 0 else Suc (index_of ys x))"

text \<open>
  \<^verbatim>\<open>api_metrics\<close> runs one cycle; \<^verbatim>\<open>api_feel\<close> rejects an unknown emotion, else sets the
  emotional vector to the unit vector of the emotion and runs one cycle; \<^verbatim>\<open>api_reset\<close>
  resets the core. The state of the global \<^verbatim>\<open>quantum_core\<close> after a request:
\<close>

datatype request =
    ApiMetrics cycle_env
  | ApiFeel string cycle_env
  | ApiReset init_env

fun handle :: "core \<Rightarrow> request \<Rightarrow> core" where
  "handle self (ApiMetrics env) = snd (execute_quantum_emotion_cycle env self)"
| "handle self (ApiFeel emotion env) =
     (if emotion \<notin> set LIVE_EMOTIONS then self
      else snd (execute_quantum_emotion_cycle env
                  (self\<lparr>emotional_vector := (replicate 8 0)[index_of LIVE_EMOTIONS emotion := 1]\<rparr>)))"
| "handle self (ApiReset e) = reset e self"

text \<open>The core after start-up with \<open>e\<close> and the requests \<open>rs\<close>, served one after the other.\<close>

definition serve :: "init_env \<Rightarrow> request list \<Rightarrow> core" where
  "serve e rs = foldl handle (init e) rs"

subsection \<open>Sample inputs\<close>

text \<open>Concrete objects and environments on which the theorems below are exercised.\<close>

definition demo_circuit :: Aura400Circuit where
  "demo_circuit = Aura400Circuit_init 4 4 ''aer_simulator''"

text \<open>Start-up with Qiskit present, and without it.\<close>

definition boot_sim :: init_env where
  "boot_sim =
     \<lparr>uniform_draw = (\<lambda>i. 1 / 2), uuid4 = ''0f8fad5b-d9cb-469f-a165-70867728950e'',
      now = 0, aer_imported = True, circuit_built = True\<rparr>"

definition boot_classical :: init_env where
  "boot_classical = boot_sim\<lparr>aer_imported := False\<rparr>"

text \<open>A run of the classical simulation at clock reading \<open>t\<close>, with no noise.\<close>

definition at_time :: "real \<Rightarrow> draws" where
  "at_time t = \<lparr>clock = t, noise = (\<lambda>i. 0), dirichlet = replicate 8 (1 / 8), raises = False\<rparr>"

text \<open>A cycle at clock reading \<open>t\<close> in which every Qiskit call raises.\<close>

definition cycle_at :: "real \<Rightarrow> cycle_env" where
  "cycle_at t =
     \<lparr>elapsed = 1 / 100, qiskit = (\<lambda>v. None), body = at_time t, fallback = at_time t\<rparr>"

text \<open>Two cycles in fallback mode, at clock readings 0 and 1, on a fresh core.\<close>

definition two_cycles :: core where
  "two_cycles = serve boot_classical [ApiMetrics (cycle_at 0), ApiMetrics (cycle_at 1)]"

text \<open>
  A cycle in which the Qiskit calls return the state vector \<open>(1, 0)\<close> and the
  eigenvalue 1.
\<close>

definition cycle_sim :: cycle_env where
  "cycle_sim =
     \<lparr>elapsed = 1 / 100, qiskit = (\<lambda>v. Some ([1, 0], Some [1])), body = at_time 0,
      fallback = at_time 0\<rparr>"

text \<open>
  A cycle at clock reading \<open>t\<close> whose \<^verbatim>\<open>try\<close> block raises, and the scenario of the
  specification: ten cycles in fallback mode, the third and the seventh failing.
\<close>

definition failing_at :: "real \<Rightarrow> cycle_env" where
  "failing_at t = (cycle_at t)\<lparr>body := (at_time t)\<lparr>raises := True\<rparr>\<rparr>"

definition ten_cycles :: core where
  "ten_cycles =
     serve boot_classical
       [ApiMetrics (cycle_at 1), ApiMetrics (cycle_at 2), ApiMetrics (failing_at 3),
        ApiMetrics (cycle_at 4), ApiMetrics (cycle_at 5), ApiMetrics (cycle_at 6),
        ApiMetrics (failing_at 7), ApiMetrics (cycle_at 8), ApiMetrics (cycle_at 9),
        ApiMetrics (cycle_at 10)]"

text \<open>
  For a list of \<^verbatim>\<open>api_metrics\<close> requests: the number of cycles whose \<^verbatim>\<open>try\<close> block
  raises, and whether every call in an \<^verbatim>\<open>except\<close> clause gets through.
\<close>

fun failures :: "request list \<Rightarrow> int" where
  "failures [] = 0"
| "failures (ApiMetrics env # rs) = (if raises (body env) then 1 else 0) + failures rs"
| "failures (r # rs) = failures rs"

fun fallback_run :: "request list \<Rightarrow> bool" where
  "fallback_run [] = True"
| "fallback_run (ApiMetrics env # rs) = (\<not> raises (fallback env) \<and> fallback_run rs)"
| "fallback_run (r # rs) = False"

subsection \<open>Probability vectors\<close>

text \<open>A distribution over the eight emotions: eight non-negative entries with sum 1.\<close>

definition distribution :: "real list \<Rightarrow> bool" where
  "distribution p \<longleftrightarrow> length p = 8 \<and> (\<forall>x \<in> set p. 0 \<le> x) \<and> sum_list p = 1"

text \<open>
  What the random generator promises: non-negative noise and a Dirichlet draw that is a
  distribution; what \<^verbatim>\<open>__init__\<close> and \<^verbatim>\<open>api_feel\<close> give the emotional vector: length 8
  and no negative entry.
\<close>

definition valid_draws :: "draws \<Rightarrow> bool" where
  "valid_draws d \<longleftrightarrow> (\<forall>i < 8. 0 \<le> noise d i) \<and> distribution (dirichlet d)"

definition valid_vector :: "core \<Rightarrow> bool" where
  "valid_vector s \<longleftrightarrow> length (emotional_vector s) = 8 \<and> (\<forall>x \<in> set (emotional_vector s). 0 \<le> x)"

subsection \<open>The coherence statistic in reachable states\<close>

text \<open>
  \<open>phase_at t\<close>: the phase angle the classical simulation stores at clock reading \<open>t\<close>.
  \<open>unit_norm\<close>: every state vector the Qiskit calls of a cycle can return has squared
  norm at most 1. \<open>phase_ok\<close>: the emotional vector has eight entries and
  \<^verbatim>\<open>phase_coherence\<close> is in the range of its mode; \<open>phase_unit\<close>: in simulation mode it
  is at most 1.
\<close>

definition phase_at :: "real \<Rightarrow> real" where
  "phase_at t = np_angle (Complex (cos (t * 0.1)) (sin (t * 0.1)))"

definition unit_norm :: "cycle_env \<Rightarrow> bool" where
  "unit_norm env \<longleftrightarrow>
     (\<forall>v sv eigs. qiskit env v = Some (sv, eigs) \<longrightarrow> sum_list (map (\<lambda>a. (cmod a)\<^sup>2) sv) \<le> 1)"

fun unit_norm_request :: "request \<Rightarrow> bool" where
  "unit_norm_request (ApiMetrics env) = unit_norm env"
| "unit_norm_request (ApiFeel emotion env) = unit_norm env"
| "unit_norm_request (ApiReset e) = True"

definition phase_ok :: "core \<Rightarrow> bool" where
  "phase_ok s \<longleftrightarrow>
     length (emotional_vector s) = 8 \<and>
     (if qiskit_available s then 0 \<le> phase_coherence s
      else - pi < phase_coherence s \<and> phase_coherence s \<le> pi)"

definition phase_unit :: "core \<Rightarrow> bool" where
  "phase_unit s \<longleftrightarrow> (qiskit_available s \<longrightarrow> phase_coherence s \<le> 1)"

subsection \<open>Invariants of the counters\<close>

text \<open>
  \<open>metrics_ok\<close>: the counters are consistent; in simulation mode no error has been
  counted. \<open>same_counters\<close>: a step left the three counters and the mode alone.
\<close>

definition metrics_ok :: "core \<Rightarrow> bool" where
  "metrics_ok s \<longleftrightarrow>
     0 \<le> errors (metrics s) \<and> errors (metrics s) \<le> executions (metrics s) \<and>
     success_rate (metrics s) =
       (if executions (metrics s) = 0 then 100
        else 100 * real_of_int (executions (metrics s) - errors (metrics s))
             / real_of_int (executions (metrics s))) \<and>
     (qiskit_available s \<longrightarrow> errors (metrics s) = 0)"

definition same_counters :: "core \<Rightarrow> core \<Rightarrow> bool" where
  "same_counters s s' \<longleftrightarrow>
     executions (metrics s') = executions (metrics s) \<and>
     errors (metrics s') = errors (metrics s) \<and>
     success_rate (metrics s') = success_rate (metrics s) \<and>
     qiskit_available s' = qiskit_available s"


section \<open>The metrics aggregator\<close>

lemma update_emotional_state_counters:
  "update_emotional_state d s = Inr s' \<Longrightarrow> same_counters s s'"
  by (auto simp: update_emotional_state_def same_counters_def Let_def split: sum.splits if_splits)

lemma update_avg_intensity_counters: "same_counters s (update_avg_intensity s)"
  by (simp add: update_avg_intensity_def same_counters_def Let_def)

lemma same_counters_trans: "same_counters a b \<Longrightarrow> same_counters b c \<Longrightarrow> same_counters a c"
  by (simp add: same_counters_def)

lemma classical_counters:
  "classical_quantum_simulation d s = (r, s') \<Longrightarrow> same_counters s s'"
  unfolding classical_quantum_simulation_def Let_def
  by (auto split: if_splits sum.splits dest!: update_emotional_state_counters
      simp: same_counters_def update_avg_intensity_def Let_def)

lemma real_counters:
  "real_quantum_simulation env s = (b, s') \<Longrightarrow> same_counters s s'"
  unfolding real_quantum_simulation_def process_quantum_results_def Let_def
  by (auto split: option.splits prod.splits if_splits sum.splits dest!: update_emotional_state_counters
      simp: same_counters_def update_avg_intensity_def Let_def)


lemma classical_returns_True:
  "classical_quantum_simulation d s = (Inr b, s') \<Longrightarrow> b"
  by (auto simp: classical_quantum_simulation_def Let_def split: if_splits sum.splits)

lemma full_rate: "0 \<le> (n::int) \<Longrightarrow> (100 * real_of_int n + 100) / (real_of_int n + 1) = 100"
proof -
  assume "0 \<le> n"
  then have "real_of_int n + 1 > 0" by simp
  then show ?thesis by (simp add: field_simps)
qed

lemma cycle_try_ok:
  assumes "metrics_ok s" and "cycle_try env s = (Inr b, s')"
  shows "metrics_ok s' \<and> qiskit_available s' = qiskit_available s"
proof (cases "qiskit_available s")
  case True
  obtain r s1 where r: "real_quantum_simulation env s = (r, s1)" by (cases "real_quantum_simulation env s")
  from real_counters [OF r] assms True r show ?thesis
    by (auto simp: cycle_try_def Let_def metrics_ok_def same_counters_def full_rate split: if_splits)
next
  case False
  obtain r s1 where r: "classical_quantum_simulation (body env) s = (r, s1)"
    by (cases "classical_quantum_simulation (body env) s")
  from classical_counters [OF r] assms False r show ?thesis
    by (cases r) (auto simp: cycle_try_def Let_def metrics_ok_def same_counters_def
        split: if_splits dest: classical_returns_True)
qed

lemma cycle_try_raises:
  assumes "metrics_ok s" and "cycle_try env s = (Inl e, s')"
  shows "same_counters s s' \<and> \<not> qiskit_available s"
proof (cases "qiskit_available s")
  case True
  obtain r s1 where r: "real_quantum_simulation env s = (r, s1)" by (cases "real_quantum_simulation env s")
  from real_counters [OF r] assms True r show ?thesis
    by (auto simp: cycle_try_def Let_def metrics_ok_def same_counters_def split: if_splits)
next
  case False
  obtain r s1 where r: "classical_quantum_simulation (body env) s = (r, s1)"
    by (cases "classical_quantum_simulation (body env) s")
  from classical_counters [OF r] assms False r show ?thesis
    by (cases r) (auto simp: cycle_try_def Let_def metrics_ok_def same_counters_def split: if_splits)
qed

lemma cycle_except_ok:
  assumes "metrics_ok s" and "\<not> qiskit_available s" and "cycle_except env s = (r, s')"
  shows "metrics_ok s'"
proof -
  let ?s3 = "s\<lparr>metrics := (metrics s)\<lparr>errors := errors (metrics s) + 1,
      executions := executions (metrics s) + 1,
      success_rate := real_of_int (executions (metrics s) + 1 - (errors (metrics s) + 1))
                 / real_of_int (max 1 (executions (metrics s) + 1)) * 100\<rparr>\<rparr>"
  from assms(3) have "classical_quantum_simulation (fallback env) ?s3 = (r, s')"
    by (simp add: cycle_except_def Let_def)
  from classical_counters [OF this] assms(1,2) show ?thesis
    by (auto simp: metrics_ok_def same_counters_def max_def)
qed

lemma cycle_ok:
  assumes "metrics_ok s"
  shows "metrics_ok (snd (execute_quantum_emotion_cycle env s))"
proof (cases "cycle_try env s")
  case (Pair r s1)
  show ?thesis
  proof (cases r)
    case (Inr b)
    with Pair cycle_try_ok [OF assms] show ?thesis
      by (simp add: execute_quantum_emotion_cycle_def)
  next
    case (Inl e)
    with Pair cycle_try_raises [OF assms] have sc: "same_counters s s1" and nq: "\<not> qiskit_available s"
      by auto
    from sc assms have ok1: "metrics_ok s1" by (simp add: metrics_ok_def same_counters_def)
    from sc nq have nq1: "\<not> qiskit_available s1" by (simp add: same_counters_def)
    obtain r' s' where c: "cycle_except env s1 = (r', s')" by (cases "cycle_except env s1")
    from cycle_except_ok [OF ok1 nq1 c] Pair Inl c show ?thesis
      by (simp add: execute_quantum_emotion_cycle_def)
  qed
qed

lemma init_ok: "metrics_ok (init e)"
  by (simp add: metrics_ok_def init_def)

lemma handle_ok: "metrics_ok s \<Longrightarrow> metrics_ok (handle s r)"
proof (cases r)
  case (ApiMetrics env)
  assume "metrics_ok s"
  with ApiMetrics show ?thesis by (simp add: cycle_ok)
next
  case (ApiFeel emotion env)
  assume ok: "metrics_ok s"
  then have "metrics_ok (s\<lparr>emotional_vector := (replicate 8 0)[index_of LIVE_EMOTIONS emotion := 1]\<rparr>)"
    by (simp add: metrics_ok_def)
  with ok ApiFeel show ?thesis by (simp add: cycle_ok)
next
  case (ApiReset e)
  then show ?thesis by (simp add: reset_def init_ok)
qed

lemma foldl_handle_ok: "metrics_ok s \<Longrightarrow> metrics_ok (foldl handle s rs)"
  by (induction rs arbitrary: s) (simp_all add: handle_ok)

lemma serve_ok: "metrics_ok (serve e rs)"
  by (simp add: serve_def foldl_handle_ok init_ok)

text \<open>
  Claim C1. Whatever the start-up environment and whatever requests are served (cycles that
  succeed, cycles whose simulation fails, cycles that raise, \<^verbatim>\<open>api_feel\<close> calls and
  resets), the \<^verbatim>\<open>errors\<close> counter never exceeds the \<^verbatim>\<open>executions\<close> counter.
\<close>

theorem serve_errors_le_executions:
  "errors (metrics (serve e rs)) \<le> executions (metrics (serve e rs))"
  using serve_ok [of e rs] by (simp add: metrics_ok_def)

text \<open>
  Claim C2. In every state the core reaches, the stored \<^verbatim>\<open>success_rate\<close> is 100 when
  \<^verbatim>\<open>executions\<close> is 0 and \<open>100 \<times> (executions - errors) / executions\<close> otherwise.
\<close>

theorem serve_success_rate:
  "success_rate (metrics (serve e rs)) =
     (if executions (metrics (serve e rs)) = 0 then 100
      else 100 * real_of_int (executions (metrics (serve e rs)) - errors (metrics (serve e rs)))
           / real_of_int (executions (metrics (serve e rs))))"
  using serve_ok [of e rs] by (simp add: metrics_ok_def)


section \<open>The encoder\<close>

text \<open>
  Claim C6. The encoder returns one entry per configured cell, and every entry lies in
  \<open>[0,1]\<close>. This holds for every label and every intensity, so in particular for the
  supported labels and the intensities in \<open>[0,1]\<close>.
\<close>

theorem emotion_to_params_range:
  "length (emotion_to_params self z emotion intensity) = n_cells self \<and>
   (\<forall>x \<in> set (emotion_to_params self z emotion intensity). 0 \<le> x \<and> x \<le> 1)"
  by (auto simp: emotion_to_params_def np_clip_def rng_normal_def Let_def)

theorem emotion_to_params_range_witness:
  "length (emotion_to_params demo_circuit (\<lambda>i. 3) ''Alegria'' 1) = 4 \<and>
   0 \<le> emotion_to_params demo_circuit (\<lambda>i. 3) ''Alegria'' 1 ! 2 \<and>
   emotion_to_params demo_circuit (\<lambda>i. 3) ''Alegria'' 1 ! 2 \<le> 1"
proof -
  have len: "length (emotion_to_params demo_circuit (\<lambda>i. 3) ''Alegria'' 1) = 4"
    using emotion_to_params_range [of demo_circuit "\<lambda>i. 3" "''Alegria''" 1]
    by (simp add: demo_circuit_def Aura400Circuit_init_def)
  then have "emotion_to_params demo_circuit (\<lambda>i. 3) ''Alegria'' 1 ! 2
      \<in> set (emotion_to_params demo_circuit (\<lambda>i. 3) ''Alegria'' 1)"
    by simp
  with len emotion_to_params_range [of demo_circuit "\<lambda>i. 3" "''Alegria''" 1] show ?thesis
    by blast
qed

text \<open>The label is looked up in lower case, and large draws are clipped.\<close>

lemma emotion_to_params_alegria:
  "emotion_to_params demo_circuit (\<lambda>i. 3) ''Alegria'' 1 = [1, 1, 1, 1]"
  by (simp add: emotion_to_params_def np_clip_def rng_normal_def Let_def demo_circuit_def
      Aura400Circuit_init_def dict_get_def EMOTIONS_def lower_def lower_char_def upt_rec)

text \<open>
  Claim C7. For a label that is not a key of \<^verbatim>\<open>EMOTIONS\<close> (after lowering), the encoder
  returns, without an error, exactly what the specified encoder returns for the base
  value 0.5 on the same random source: entry \<open>i\<close> is the \<open>i\<close>-th draw of a normal
  distribution with mean \<open>0.5 \<times> intensity\<close> and standard deviation 0.05, clipped to
  \<open>[0,1]\<close>.
\<close>

theorem emotion_to_params_unknown:
  "lower emotion \<notin> fst ` set EMOTIONS \<Longrightarrow>
   emotion_to_params self z emotion intensity = spec_encoder (n_cells self) z 0.5 intensity"
  by (simp add: emotion_to_params_def spec_encoder_def np_clip_def rng_normal_def Let_def
      dict_get_def map_of_eq_None_iff [THEN iffD2])

theorem emotion_to_params_unknown_witness:
  "lower ''Joy'' \<notin> fst ` set EMOTIONS \<and>
   emotion_to_params demo_circuit (\<lambda>i. real i) ''Joy'' (1 / 2)
     = spec_encoder 4 (\<lambda>i. real i) 0.5 (1 / 2)"
proof -
  have h: "lower ''Joy'' \<notin> fst ` set EMOTIONS"
    by (simp add: lower_def lower_char_def EMOTIONS_def)
  from emotion_to_params_unknown [OF h, of demo_circuit "\<lambda>i. real i" "1 / 2"] h show ?thesis
    by (simp add: demo_circuit_def Aura400Circuit_init_def)
qed


section \<open>The length check of \<^verbatim>\<open>execute_circuit\<close>\<close>

text \<open>
  Claim C10. When the number of parameter values differs from \<^verbatim>\<open>n_cells\<close>,
  \<^verbatim>\<open>execute_circuit\<close> raises \<^verbatim>\<open>ValueError\<close>; the object, and with it \<^verbatim>\<open>last_result\<close>, is
  unchanged, and the only thing done is logging the error: the circuit is not built and
  the backend is not called (the result does not depend on \<open>run\<close>).
\<close>

theorem execute_circuit_length_check:
  "length parameter_values \<noteq> n_cells self \<Longrightarrow>
   execute_circuit run self parameter_values shots save_to = (Inl ValueError, self, [LoggedError])"
  by (simp add: execute_circuit_def)

theorem execute_circuit_length_check_witness:
  "length [0.1, 0.2, 0.3 :: real] \<noteq> n_cells demo_circuit \<and>
   execute_circuit (\<lambda>c p n. Some [1, 0]) demo_circuit [0.1, 0.2, 0.3] 1024 None
     = (Inl ValueError, demo_circuit, [LoggedError])"
proof -
  have h: "length [0.1, 0.2, 0.3 :: real] \<noteq> n_cells demo_circuit"
    by (simp add: demo_circuit_def Aura400Circuit_init_def)
  from execute_circuit_length_check [OF h] h show ?thesis by simp
qed

text \<open>With the right number of values the same backend is called and the result stored.\<close>

lemma execute_circuit_stores_result:
  "fst (snd (execute_circuit (\<lambda>c p n. Some [1, 0]) demo_circuit [0.1, 0.2, 0.3, 0.4] 1024 None))
     \<noteq> demo_circuit"
  by (simp add: execute_circuit_def build_circuit_def cell_starts_def demo_circuit_def
      Aura400Circuit_init_def upt_rec Let_def)

section \<open>A failing simulation\<close>

text \<open>
  \<^verbatim>\<open>real_quantum_simulation\<close> catches every exception itself and returns \<^verbatim>\<open>False\<close>, so
  the \<^verbatim>\<open>except\<close> clause of \<^verbatim>\<open>execute_quantum_emotion_cycle\<close> is never entered in
  simulation mode: the cycle only counts an execution and stamps its duration.
\<close>

lemma sim_failure_cycle:
  assumes "qiskit_available s" and "qiskit env (emotional_vector s) = None"
  shows "execute_quantum_emotion_cycle env s =
           (Inr False, s\<lparr>metrics := (metrics s)\<lparr>last_execution_time := Some (elapsed env),
                                                 executions := executions (metrics s) + 1\<rparr>\<rparr>)"
  using assms
  by (simp add: execute_quantum_emotion_cycle_def cycle_try_def real_quantum_simulation_def Let_def)

text \<open>
  In fallback mode an exception of the \<^verbatim>\<open>try\<close> block does reach the \<^verbatim>\<open>except\<close>
  clause: the error is counted, the rate recomputed and the classical simulation run.
\<close>

lemma classical_failure_cycle:
  assumes "\<not> qiskit_available s" and "raises (body env)"
  shows "execute_quantum_emotion_cycle env s =
           classical_quantum_simulation (fallback env)
             (s\<lparr>metrics := (metrics s)\<lparr>errors := errors (metrics s) + 1,
                  executions := executions (metrics s) + 1,
                  success_rate := real_of_int (executions (metrics s) + 1 - (errors (metrics s) + 1))
                      / real_of_int (max 1 (executions (metrics s) + 1)) * 100\<rparr>\<rparr>)"
  using assms
  by (simp add: execute_quantum_emotion_cycle_def cycle_try_def cycle_except_def
      classical_quantum_simulation_def Let_def)

text \<open>
  Claim C3 (not met by the code). On a fresh core in simulation mode, a cycle whose
  Qiskit calls raise returns \<^verbatim>\<open>False\<close> without raising, but \<^verbatim>\<open>errors\<close> stays 0 and
  no statistic is computed in fallback mode: apart from \<^verbatim>\<open>executions\<close> and
  \<^verbatim>\<open>last_execution_time\<close> the core is as \<^verbatim>\<open>__init__\<close> left it.
\<close>

theorem sim_failure_not_counted:
  "execute_quantum_emotion_cycle (cycle_at 0) (init boot_sim) =
     (Inr False,
      (init boot_sim)\<lparr>metrics := (metrics (init boot_sim))
         \<lparr>last_execution_time := Some (1 / 100), executions := 1\<rparr>\<rparr>)
   \<and> errors (metrics (snd (execute_quantum_emotion_cycle (cycle_at 0) (init boot_sim)))) = 0
   \<and> quantum_intensity (snd (execute_quantum_emotion_cycle (cycle_at 0) (init boot_sim))) = 0"
proof -
  have a: "qiskit_available (init boot_sim)" by (simp add: init_def boot_sim_def)
  have b: "qiskit (cycle_at 0) (emotional_vector (init boot_sim)) = None"
    by (simp add: cycle_at_def)
  show ?thesis
    unfolding sim_failure_cycle [OF a b] by (simp add: init_def cycle_at_def)
qed


section \<open>The emotion state\<close>

text \<open>
  Claim C4 (not met by the code). After the same failing cycle on a fresh core the
  emotion state is still the zero vector of \<^verbatim>\<open>__init__\<close>: its entries sum to 0, not to 1.
\<close>

theorem sim_failure_keeps_zero_state:
  "emotion_state (snd (execute_quantum_emotion_cycle (cycle_at 0) (init boot_sim)))
     = [0, 0, 0, 0, 0, 0, 0, 0]
   \<and> sum_list (emotion_state (snd (execute_quantum_emotion_cycle (cycle_at 0) (init boot_sim)))) = 0"
proof -
  have a: "qiskit_available (init boot_sim)" by (simp add: init_def boot_sim_def)
  have b: "qiskit (cycle_at 0) (emotional_vector (init boot_sim)) = None"
    by (simp add: cycle_at_def)
  show ?thesis
    unfolding sim_failure_cycle [OF a b] by (simp add: init_def numeral_eq_Suc)
qed

text \<open>
  Where \<^verbatim>\<open>update_emotional_state\<close> does run, on a non-negative emotional vector of
  length 8 with non-negative noise, it leaves a distribution, also in the degenerate
  case, provided the Dirichlet draw is one.
\<close>

lemma sum_list_scaled:
  fixes xs :: "real list"
  shows "sum_list (map (\<lambda>x. x / c) xs) = sum_list xs / c"
  by (induction xs) (simp_all add: add_divide_distrib)
lemma map2_add_nonneg:
  fixes xs ys :: "real list"
  assumes "\<forall>x \<in> set xs. 0 \<le> x" and "\<forall>y \<in> set ys. 0 \<le> y"
  shows "\<forall>z \<in> set (map2 (+) xs ys). 0 \<le> z"
proof
  fix z assume "z \<in> set (map2 (+) xs ys)"
  then obtain a b where ab: "(a, b) \<in> set (zip xs ys)" and z: "z = a + b" by auto
  from ab have "a \<in> set xs" and "b \<in> set ys" by (auto dest: set_zip_leftD set_zip_rightD)
  with assms z show "0 \<le> z" by simp
qed

lemma noise_nonneg:
  assumes "\<forall>i < 8. 0 \<le> noise d i"
  shows "\<forall>y \<in> set (map (\<lambda>x. x * 0.1) (rng_random (noise d) 8)). 0 \<le> y"
  using assms by (auto simp: rng_random_def)

lemma normalise_distribution:
  fixes b :: "real list"
  assumes "length b = 8" and "\<forall>x \<in> set b. 0 \<le> x" and "sum_list b > 0"
  shows "distribution (map (\<lambda>x. x / sum_list b) b)"
  using assms by (auto simp: distribution_def sum_list_scaled)

lemma update_emotional_state_distribution:
  assumes len: "length (emotional_vector s) = 8"
    and ev: "\<forall>x \<in> set (emotional_vector s). 0 \<le> x"
    and nz: "\<forall>i < 8. 0 \<le> noise d i"
    and dir: "distribution (dirichlet d)"
  shows "\<exists>s'. update_emotional_state d s = Inr s' \<and> distribution (emotion_state s')"
proof -
  define nv where "nv = map (\<lambda>x. x * 0.1) (rng_random (noise d) 8)"
  define base where "base = map2 (+) (emotional_vector s) nv"
  have lnv: "length nv = 8" by (simp add: nv_def rng_random_def)
  have add: "np_add (emotional_vector s) nv = Inr base"
    using len lnv by (simp add: np_add_def base_def)
  have lb: "length base = 8" using len lnv by (simp add: base_def)
  have nonneg: "\<forall>x \<in> set base. 0 \<le> x"
    unfolding base_def nv_def by (rule map2_add_nonneg [OF ev noise_nonneg [OF nz]])
  have upd: "update_emotional_state d s =
      (if sum_list base > 0 then Inr (s\<lparr>emotion_state := map (\<lambda>x. x / sum_list base) base\<rparr>)
       else Inr (s\<lparr>emotion_state := dirichlet d\<rparr>))"
    using add unfolding update_emotional_state_def nv_def [symmetric] by (simp add: Let_def)
  show ?thesis
  proof (cases "sum_list base > 0")
    case True
    with upd normalise_distribution [OF lb nonneg True] show ?thesis by simp
  next
    case False
    with upd dir show ?thesis by simp
  qed
qed


text \<open>So every cycle that returns \<^verbatim>\<open>True\<close> leaves a distribution.\<close>

lemma update_emotional_state_vector:
  "update_emotional_state d s = Inr s' \<Longrightarrow> emotional_vector s' = emotional_vector s"
  by (auto simp: update_emotional_state_def Let_def split: sum.splits if_splits)

lemma classical_vector:
  "classical_quantum_simulation d s = (r, s') \<Longrightarrow> emotional_vector s' = emotional_vector s"
  by (auto simp: classical_quantum_simulation_def Let_def update_avg_intensity_def
      split: if_splits sum.splits dest!: update_emotional_state_vector)

lemma real_vector:
  "real_quantum_simulation env s = (b, s') \<Longrightarrow> emotional_vector s' = emotional_vector s"
  by (auto simp: real_quantum_simulation_def process_quantum_results_def Let_def
      update_avg_intensity_def
      split: option.splits prod.splits if_splits sum.splits dest!: update_emotional_state_vector)

lemma cycle_try_vector:
  "cycle_try env s = (r, s') \<Longrightarrow> emotional_vector s' = emotional_vector s"
proof (cases "qiskit_available s")
  case True
  assume a: "cycle_try env s = (r, s')"
  obtain b s1 where r: "real_quantum_simulation env s = (b, s1)"
    by (cases "real_quantum_simulation env s")
  from real_vector [OF r] a True r show ?thesis
    by (auto simp: cycle_try_def Let_def split: if_splits)
next
  case False
  assume a: "cycle_try env s = (r, s')"
  obtain r1 s1 where r: "classical_quantum_simulation (body env) s = (r1, s1)"
    by (cases "classical_quantum_simulation (body env) s")
  from classical_vector [OF r] a False r show ?thesis
    by (cases r1) (auto simp: cycle_try_def Let_def split: if_splits)
qed

lemma classical_distribution:
  assumes run: "classical_quantum_simulation d s = (Inr b, s')"
    and vec: "valid_vector s" and dr: "valid_draws d"
  shows "distribution (emotion_state s')"
proof -
  let ?s3 = "s\<lparr>quantum_intensity := classical_intensity (clock d),
                 phase_coherence := np_angle (Complex (cos (clock d * 0.1)) (sin (clock d * 0.1))),
                 entanglement_measure := 0.3 + 0.1 * sin (clock d * 0.02)\<rparr>"
  from vec have "length (emotional_vector ?s3) = 8" "\<forall>x \<in> set (emotional_vector ?s3). 0 \<le> x"
    by (simp_all add: valid_vector_def)
  from update_emotional_state_distribution [OF this, of d] dr obtain s4 where
    "update_emotional_state d ?s3 = Inr s4" and "distribution (emotion_state s4)"
    by (auto simp: valid_draws_def)
  with run show ?thesis
    by (auto simp: classical_quantum_simulation_def Let_def update_avg_intensity_def
        split: if_splits)
qed

lemma real_distribution:
  assumes run: "real_quantum_simulation env s = (True, s')"
    and vec: "valid_vector s" and dr: "valid_draws (body env)"
  shows "distribution (emotion_state s')"
proof -
  from run obtain sv eigs where q: "qiskit env (emotional_vector s) = Some (sv, eigs)"
    by (auto simp: real_quantum_simulation_def split: option.splits)
  let ?s3 = "s\<lparr>quantum_intensity := sum_list (take 8 (map (\<lambda>a. (cmod a)\<^sup>2) sv)),
                 phase_coherence := purity sv, entanglement_measure := entanglement_of eigs\<rparr>"
  from vec have "length (emotional_vector ?s3) = 8" "\<forall>x \<in> set (emotional_vector ?s3). 0 \<le> x"
    by (simp_all add: valid_vector_def)
  from update_emotional_state_distribution [OF this, of "body env"] dr obtain s4 where
    "update_emotional_state (body env) ?s3 = Inr s4" and "distribution (emotion_state s4)"
    by (auto simp: valid_draws_def)
  with run q show ?thesis
    by (auto simp: real_quantum_simulation_def process_quantum_results_def Let_def
        update_avg_intensity_def split: if_splits)
qed

lemma cycle_distribution:
  assumes run: "execute_quantum_emotion_cycle env s = (Inr True, s')"
    and vec: "valid_vector s"
    and dr: "valid_draws (body env)" "valid_draws (fallback env)"
  shows "distribution (emotion_state s')"
proof (cases "cycle_try env s")
  case (Pair r s2)
  show ?thesis
  proof (cases r)
    case (Inr b)
    with Pair run have s': "s2 = s'" and b: "b" by (simp_all add: execute_quantum_emotion_cycle_def)
    show ?thesis
    proof (cases "qiskit_available s")
      case True
      obtain b1 s1 where r1: "real_quantum_simulation env s = (b1, s1)"
        by (cases "real_quantum_simulation env s")
      from Pair Inr b True r1 s' have "b1" and "emotion_state s' = emotion_state s1"
        by (auto simp: cycle_try_def Let_def split: if_splits)
      with real_distribution [OF _ vec dr(1)] r1 show ?thesis by simp
    next
      case False
      obtain r1 s1 where r1: "classical_quantum_simulation (body env) s = (r1, s1)"
        by (cases "classical_quantum_simulation (body env) s")
      from Pair Inr b False r1 s' have "\<exists>b1. r1 = Inr b1" and "emotion_state s' = emotion_state s1"
        by (cases r1; auto simp: cycle_try_def Let_def split: if_splits)+
      with classical_distribution [OF _ vec dr(1)] r1 show ?thesis by auto
    qed
  next
    case (Inl e)
    with Pair run have ex: "cycle_except env s2 = (Inr True, s')"
      by (simp add: execute_quantum_emotion_cycle_def)
    from cycle_try_vector [OF Pair] vec have "valid_vector s2" by (simp add: valid_vector_def)
    then have "valid_vector (s2\<lparr>metrics := (metrics s2)\<lparr>errors := errors (metrics s2) + 1,
                  executions := executions (metrics s2) + 1,
                  success_rate := real_of_int (executions (metrics s2) + 1 - (errors (metrics s2) + 1))
                      / real_of_int (max 1 (executions (metrics s2) + 1)) * 100\<rparr>\<rparr>)"
      by (simp add: valid_vector_def)
    from classical_distribution [OF _ this dr(2)] ex show ?thesis
      by (simp add: cycle_except_def Let_def)
  qed
qed


section \<open>Reset\<close>

text \<open>
  Claim C8, as stated, fails: after a reset neither \<^verbatim>\<open>emotion_state\<close> nor
  \<^verbatim>\<open>emotional_vector\<close> is a renormalised draw. Here the first sums to 0 and the
  second to 4.
\<close>

theorem reset_not_distribution:
  "sum_list (emotion_state (reset boot_sim (init boot_classical))) \<noteq> 1 \<and>
   sum_list (emotional_vector (reset boot_sim (init boot_classical))) \<noteq> 1"
  by (simp add: reset_def init_def rng_random_def boot_sim_def upt_rec sum_list_replicate)

text \<open>
  Claim C8, amended. After a reset both counters are 0, the session identifier is the
  first eight characters of the newly generated UUID, \<^verbatim>\<open>emotion_state\<close> is the zero
  vector of length 8 and \<^verbatim>\<open>emotional_vector\<close> is a fresh uniform draw of eight values,
  not renormalised.
\<close>

theorem reset_state:
  "executions (metrics (reset e s)) = 0 \<and> errors (metrics (reset e s)) = 0 \<and>
   session_id (reset e s) = take 8 (uuid4 e) \<and>
   emotion_state (reset e s) = replicate 8 0 \<and>
   emotional_vector (reset e s) = map (uniform_draw e) [0..<8]"
  by (simp add: reset_def init_def rng_random_def)

section \<open>The running mean of the intensity\<close>

text \<open>
  A cycle in fallback mode whose library calls do not raise, on an emotional vector of
  length 8: the classical simulation runs before \<^verbatim>\<open>executions\<close> is incremented, so
  \<^verbatim>\<open>update_avg_intensity\<close> sees the count of the cycles before this one.
\<close>

lemma update_emotional_state_runs:
  assumes "length (emotional_vector s) = 8"
  shows "\<exists>es. update_emotional_state d s = Inr (s\<lparr>emotion_state := es\<rparr>)"
  using assms by (auto simp: update_emotional_state_def np_add_def rng_random_def Let_def)

lemma classical_quantum_simulation_runs:
  assumes "\<not> raises d" and "length (emotional_vector s) = 8"
  shows "\<exists>es. classical_quantum_simulation d s =
           (Inr True,
            update_avg_intensity
              (s\<lparr>quantum_intensity := classical_intensity (clock d),
                 phase_coherence := np_angle (Complex (cos (clock d * 0.1)) (sin (clock d * 0.1))),
                 entanglement_measure := 0.3 + 0.1 * sin (clock d * 0.02),
                 emotion_state := es\<rparr>))"
proof -
  let ?s3 = "s\<lparr>quantum_intensity := classical_intensity (clock d),
                 phase_coherence := np_angle (Complex (cos (clock d * 0.1)) (sin (clock d * 0.1))),
                 entanglement_measure := 0.3 + 0.1 * sin (clock d * 0.02)\<rparr>"
  from assms(2) have "length (emotional_vector ?s3) = 8" by simp
  from update_emotional_state_runs [OF this, of d]
  obtain es where "update_emotional_state d ?s3 = Inr (?s3\<lparr>emotion_state := es\<rparr>)" ..
  with assms(1) show ?thesis
    by (auto simp: classical_quantum_simulation_def Let_def)
qed

lemma classical_cycle_avg:
  assumes nq: "\<not> qiskit_available s" and nr: "\<not> raises (body env)"
    and len: "length (emotional_vector s) = 8" and pos: "0 < executions (metrics s)"
  shows "fst (execute_quantum_emotion_cycle env s) = Inr True \<and>
         executions (metrics (snd (execute_quantum_emotion_cycle env s)))
           = executions (metrics s) + 1 \<and>
         avg_intensity (metrics (snd (execute_quantum_emotion_cycle env s)))
           = (avg_intensity (metrics s) * real_of_int (executions (metrics s) - 1)
              + classical_intensity (clock (body env))) / real_of_int (executions (metrics s))"
proof -
  from classical_quantum_simulation_runs [OF nr len] obtain es where
    "classical_quantum_simulation (body env) s =
           (Inr True,
            update_avg_intensity
              (s\<lparr>quantum_intensity := classical_intensity (clock (body env)),
                 phase_coherence := np_angle (Complex (cos (clock (body env) * 0.1)) (sin (clock (body env) * 0.1))),
                 entanglement_measure := 0.3 + 0.1 * sin (clock (body env) * 0.02),
                 emotion_state := es\<rparr>))" ..
  with nq pos show ?thesis
    by (simp add: execute_quantum_emotion_cycle_def cycle_try_def Let_def update_avg_intensity_def)
qed

lemma classical_first_cycle:
  assumes nq: "\<not> qiskit_available s" and nr: "\<not> raises (body env)"
    and len: "length (emotional_vector s) = 8" and pos: "executions (metrics s) = 0"
  shows "fst (execute_quantum_emotion_cycle env s) = Inr True \<and>
         executions (metrics (snd (execute_quantum_emotion_cycle env s))) = 1 \<and>
         avg_intensity (metrics (snd (execute_quantum_emotion_cycle env s)))
           = classical_intensity (clock (body env)) \<and>
         \<not> qiskit_available (snd (execute_quantum_emotion_cycle env s)) \<and>
         emotional_vector (snd (execute_quantum_emotion_cycle env s)) = emotional_vector s"
proof -
  from classical_quantum_simulation_runs [OF nr len] obtain es where
    "classical_quantum_simulation (body env) s =
           (Inr True,
            update_avg_intensity
              (s\<lparr>quantum_intensity := classical_intensity (clock (body env)),
                 phase_coherence := np_angle (Complex (cos (clock (body env) * 0.1)) (sin (clock (body env) * 0.1))),
                 entanglement_measure := 0.3 + 0.1 * sin (clock (body env) * 0.02),
                 emotion_state := es\<rparr>))" ..
  with nq pos show ?thesis
    by (simp add: execute_quantum_emotion_cycle_def cycle_try_def Let_def update_avg_intensity_def)
qed

text \<open>The intensity at clock reading 0 is one half; at clock reading 1 it is larger.\<close>

lemma classical_intensity_0: "classical_intensity 0 = 1 / 2"
  by (simp add: classical_intensity_def Let_def)

lemma modulated_above_half:
  fixes a c :: real
  assumes "0 < a" and "0 < c"
  shows "1 / 2 < (a + 1) / 2 * (1 + 0.3 * c)"
proof -
  from assms have ac: "0 < a * c" by simp
  have "(a + 1) * (1 + 0.3 * c) = 1 + a + 0.3 * c + 0.3 * (a * c)"
    by (simp add: algebra_simps)
  with assms ac have "1 < (a + 1) * (1 + 0.3 * c)" by linarith
  then show ?thesis by simp
qed

lemma classical_intensity_1: "1 / 2 < classical_intensity 1"
proof -
  have a: "0 < sin (1 / 10 :: real)" by (rule sin_gt_zero_02) simp_all
  have c: "0 < sin (1 / 20 :: real)" by (rule sin_gt_zero_02) simp_all
  have "(13 / 100 :: real) < pi / 2" using pi_ge_two by simp
  then have b: "0 < cos (13 / 100 :: real)" by (intro cos_gt_zero) simp_all
  from a b have ab: "0 < sin (1 / 10 :: real) * cos (13 / 100)" by simp
  from modulated_above_half [OF ab c] show ?thesis
    by (simp add: classical_intensity_def Let_def)
qed

text \<open>
  Claim C5 (not met by the code). Each cycle increments \<^verbatim>\<open>executions\<close> by one, but the
  mean is taken with the counter value from before the increment. After two cycles in
  fallback mode \<^verbatim>\<open>avg_intensity\<close> is the intensity of the second cycle alone, not the
  running mean \<open>(avg \<times> (2 - 1) + new) / 2\<close> of both.
\<close>

theorem avg_intensity_drops_first_cycle:
  "executions (metrics two_cycles) = 2 \<and>
   avg_intensity (metrics two_cycles) = classical_intensity 1 \<and>
   avg_intensity (metrics two_cycles) \<noteq> (classical_intensity 0 * (2 - 1) + classical_intensity 1) / 2"
proof -
  let ?s0 = "init boot_classical"
  let ?s1 = "snd (execute_quantum_emotion_cycle (cycle_at 0) ?s0)"
  have nq0: "\<not> qiskit_available ?s0" by (simp add: init_def boot_classical_def boot_sim_def)
  have nr0: "\<not> raises (body (cycle_at 0))" by (simp add: cycle_at_def at_time_def)
  have len0: "length (emotional_vector ?s0) = 8" by (simp add: init_def rng_random_def)
  have ex0: "executions (metrics ?s0) = 0" by (simp add: init_def)
  from classical_first_cycle [OF nq0 nr0 len0 ex0]
  have ex1: "executions (metrics ?s1) = 1"
    and avg1: "avg_intensity (metrics ?s1) = classical_intensity (clock (body (cycle_at 0)))"
    and nq1: "\<not> qiskit_available ?s1"
    and len1: "length (emotional_vector ?s1) = 8"
    using len0 by simp_all
  have nr1: "\<not> raises (body (cycle_at 1))" by (simp add: cycle_at_def at_time_def)
  from ex1 have pos1: "0 < executions (metrics ?s1)" by simp
  have two: "two_cycles = snd (execute_quantum_emotion_cycle (cycle_at 1) ?s1)"
    by (simp add: two_cycles_def serve_def)
  from classical_cycle_avg [OF nq1 nr1 len1 pos1] ex1 avg1
  have "executions (metrics two_cycles) = 2"
    and "avg_intensity (metrics two_cycles) = classical_intensity 1"
    unfolding two by (simp_all add: cycle_at_def at_time_def)
  with classical_intensity_0 classical_intensity_1 show ?thesis by simp
qed

section \<open>The coherence statistic\<close>

subsection \<open>Fallback mode: a phase angle\<close>

lemma arctan2_range: "- pi < arctan2 y x \<and> arctan2 y x \<le> pi"
proof -
  have lo: "- (pi / 2) < arctan (y / x)" by (rule arctan_lbound)
  have hi: "arctan (y / x) < pi / 2" by (rule arctan_ubound)
  consider "0 < x" | "x < 0" "0 \<le> y" | "x < 0" "y < 0" | "x = 0"
    by linarith
  then show ?thesis
  proof cases
    case 1
    then have eq: "arctan2 y x = arctan (y / x)" by (simp add: arctan2_def)
    show ?thesis unfolding eq using lo hi pi_gt_zero by linarith
  next
    case 2
    then have eq: "arctan2 y x = arctan (y / x) + pi" by (simp add: arctan2_def)
    from 2 have "y / x \<le> 0" by (simp add: divide_nonneg_neg)
    then have "arctan (y / x) \<le> 0" by simp
    then show ?thesis unfolding eq using lo pi_gt_zero by linarith
  next
    case 3
    then have eq: "arctan2 y x = arctan (y / x) - pi" by (simp add: arctan2_def)
    from 3 have "0 < y / x" by (simp add: divide_neg_neg)
    then have "0 < arctan (y / x)" by simp
    then show ?thesis unfolding eq using hi pi_gt_zero by linarith
  next
    case 4
    then have "arctan2 y x = pi / 2 \<or> arctan2 y x = - (pi / 2) \<or> arctan2 y x = 0"
      by (simp add: arctan2_def)
    then show ?thesis using pi_gt_zero by linarith
  qed
qed

lemma np_angle_range: "- pi < np_angle z \<and> np_angle z \<le> pi"
  by (simp add: np_angle_def arctan2_range)

subsection \<open>Simulation mode: the purity of the state vector\<close>

text \<open>
  The trace of the square of the outer product is the square of the sum of the squared
  magnitudes, hence 1 for a normalised state vector.
\<close>

lemma sum_list_index:
  "sum_list (map (\<lambda>k. f (xs ! k)) [0..<length xs]) = sum_list (map f xs)"
proof -
  have "map (\<lambda>k. f (xs ! k)) [0..<length xs] = map f (map (\<lambda>k. xs ! k) [0..<length xs])"
    by simp
  then show ?thesis by (simp only: map_nth)
qed

lemma sum_list_of_real:
  "sum_list (map (\<lambda>x. complex_of_real (f x)) xs) = complex_of_real (sum_list (map f xs))"
  by (induction xs) simp_all

lemma amplitude_product:
  "(a * cnj b) * (b * cnj a) = complex_of_real ((cmod a)\<^sup>2) * complex_of_real ((cmod b)\<^sup>2)"
proof -
  have "(a * cnj b) * (b * cnj a) = (a * cnj a) * (b * cnj b)" by (simp add: mult_ac)
  then show ?thesis by (simp only: complex_norm_square)
qed

lemma purity_eq: "purity sv = (sum_list (map (\<lambda>a. (cmod a)\<^sup>2) sv))\<^sup>2"
proof -
  define n where "n = length sv"
  define rho where "rho = np_outer sv (map cnj sv)"
  define S where "S = sum_list (map (\<lambda>a. (cmod a)\<^sup>2) sv)"
  have len: "length rho = n" by (simp add: rho_def np_outer_def n_def)
  have entry: "rho ! i ! j = sv ! i * cnj (sv ! j)" if "i < n" "j < n" for i j
    using that by (simp add: rho_def np_outer_def n_def)
  have total: "sum_list (map (\<lambda>k. complex_of_real ((cmod (sv ! k))\<^sup>2)) [0..<n]) = complex_of_real S"
    unfolding n_def S_def
    by (simp only: sum_list_of_real sum_list_index [of "\<lambda>a. (cmod a)\<^sup>2" sv])
  have diag: "matmul rho rho ! i ! i = complex_of_real ((cmod (sv ! i))\<^sup>2) * complex_of_real S"
    if "i < n" for i
  proof -
    have "matmul rho rho ! i ! i = sum_list (map (\<lambda>k. rho ! i ! k * rho ! k ! i) [0..<n])"
      using that by (simp add: matmul_def len)
    also have "\<dots> = sum_list (map (\<lambda>k. complex_of_real ((cmod (sv ! i))\<^sup>2)
                                   * complex_of_real ((cmod (sv ! k))\<^sup>2)) [0..<n])"
      using that by (intro arg_cong [where f = sum_list] map_cong refl)
        (simp add: entry amplitude_product)
    also have "\<dots> = complex_of_real ((cmod (sv ! i))\<^sup>2) * complex_of_real S"
      by (simp only: sum_list_const_mult total)
    finally show ?thesis .
  qed
  have "np_trace (matmul rho rho) = sum_list (map (\<lambda>i. matmul rho rho ! i ! i) [0..<n])"
    by (simp add: np_trace_def matmul_def len)
  also have "\<dots> = sum_list (map (\<lambda>i. complex_of_real ((cmod (sv ! i))\<^sup>2) * complex_of_real S) [0..<n])"
    by (intro arg_cong [where f = sum_list] map_cong refl) (simp add: diag)
  also have "\<dots> = complex_of_real S * complex_of_real S"
    by (simp only: sum_list_mult_const total)
  finally have "np_trace (matmul rho rho) = complex_of_real (S * S)" by simp
  then have tr: "Re (np_trace (matmul rho rho)) = S * S" by simp
  have "purity sv = Re (np_trace (matmul rho rho))"
    by (simp add: purity_def Let_def rho_def)
  with tr show ?thesis
    unfolding S_def [symmetric] by (simp add: power2_eq_square)
qed


lemma purity_unit_interval:
  "0 \<le> purity sv \<and> (sum_list (map (\<lambda>a. (cmod a)\<^sup>2) sv) \<le> 1 \<longrightarrow> purity sv \<le> 1)"
proof -
  have "0 \<le> sum_list (map (\<lambda>a. (cmod a)\<^sup>2) sv)" by (rule sum_list_nonneg) auto
  then show ?thesis by (simp add: purity_eq power_le_one)
qed

subsection \<open>After a cycle\<close>

lemma classical_cycle_phase:
  assumes nq: "\<not> qiskit_available s" and nr: "\<not> raises (body env)"
    and len: "length (emotional_vector s) = 8" and cnt: "0 \<le> executions (metrics s)"
  shows "fst (execute_quantum_emotion_cycle env s) = Inr True \<and>
         phase_coherence (snd (execute_quantum_emotion_cycle env s))
           = np_angle (Complex (cos (clock (body env) * 0.1)) (sin (clock (body env) * 0.1)))"
proof -
  from classical_quantum_simulation_runs [OF nr len] obtain es where
    "classical_quantum_simulation (body env) s =
           (Inr True,
            update_avg_intensity
              (s\<lparr>quantum_intensity := classical_intensity (clock (body env)),
                 phase_coherence := np_angle (Complex (cos (clock (body env) * 0.1)) (sin (clock (body env) * 0.1))),
                 entanglement_measure := 0.3 + 0.1 * sin (clock (body env) * 0.02),
                 emotion_state := es\<rparr>))" ..
  with nq cnt show ?thesis
    by (simp add: execute_quantum_emotion_cycle_def cycle_try_def Let_def update_avg_intensity_def)
qed

text \<open>
  Claim C9, as stated, fails in fallback mode: at clock reading 20 the unit complex
  number has phase 2 radians, and \<^verbatim>\<open>phase_coherence\<close> after the cycle is larger than 1.
\<close>

theorem phase_coherence_exceeds_one:
  "1 < phase_coherence (snd (execute_quantum_emotion_cycle (cycle_at 20) (init boot_classical)))"
proof -
  have nq: "\<not> qiskit_available (init boot_classical)"
    by (simp add: init_def boot_classical_def boot_sim_def)
  have nr: "\<not> raises (body (cycle_at 20))" by (simp add: cycle_at_def at_time_def)
  have len: "length (emotional_vector (init boot_classical)) = 8"
    by (simp add: init_def rng_random_def)
  have cnt: "0 \<le> executions (metrics (init boot_classical))" by (simp add: init_def)
  from classical_cycle_phase [OF nq nr len cnt]
  have pc: "phase_coherence (snd (execute_quantum_emotion_cycle (cycle_at 20) (init boot_classical)))
      = arctan2 (sin 2) (cos 2)"
    by (simp add: cycle_at_def at_time_def np_angle_def)
  have c: "cos (2 :: real) < 0" by (rule cos_two_less_zero)
  have s: "0 \<le> sin (2 :: real)" by (rule sin_ge_zero) (simp_all add: pi_ge_two)
  from c have nc: "\<not> 0 < cos (2 :: real)" by linarith
  from nc s have eq: "arctan2 (sin 2) (cos 2) = arctan (sin 2 / cos 2) + pi"
    by (simp add: arctan2_def)
  have "- (pi / 2) < arctan (sin 2 / cos 2)" by (rule arctan_lbound)
  with pi_ge_two have "1 < arctan (sin 2 / cos 2) + pi" by linarith
  with pc eq show ?thesis by simp
qed

text \<open>
  In a state the core can reach the emotional vector has length 8 and \<^verbatim>\<open>executions\<close> is
  not negative, so a cycle assigns \<^verbatim>\<open>phase_coherence\<close> as follows.
\<close>

lemma sim_cycle_phase:
  assumes q: "qiskit_available s" and len: "length (emotional_vector s) = 8"
    and cnt: "0 \<le> executions (metrics s)"
  shows "phase_coherence (snd (execute_quantum_emotion_cycle env s)) =
           (case qiskit env (emotional_vector s) of
              None \<Rightarrow> phase_coherence s
            | Some (sv, eigs) \<Rightarrow> purity sv)"
proof (cases "qiskit env (emotional_vector s)")
  case None
  from sim_failure_cycle [OF q None] None show ?thesis by simp
next
  case (Some p)
  obtain sv eigs where p: "p = (sv, eigs)" by (cases p)
  let ?s3 = "s\<lparr>quantum_intensity := sum_list (take 8 (map (\<lambda>a. (cmod a)\<^sup>2) sv)),
                 phase_coherence := purity sv, entanglement_measure := entanglement_of eigs\<rparr>"
  from len have "length (emotional_vector ?s3) = 8" by simp
  from update_emotional_state_runs [OF this, of "body env"] obtain es where
    "update_emotional_state (body env) ?s3 = Inr (?s3\<lparr>emotion_state := es\<rparr>)" ..
  then have "real_quantum_simulation env s = (True, update_avg_intensity (?s3\<lparr>emotion_state := es\<rparr>))"
    using Some p by (simp add: real_quantum_simulation_def process_quantum_results_def Let_def)
  with q cnt Some p show ?thesis
    by (simp add: execute_quantum_emotion_cycle_def cycle_try_def Let_def update_avg_intensity_def)
qed

lemma fallback_cycle_phase:
  assumes nq: "\<not> qiskit_available s" and len: "length (emotional_vector s) = 8"
    and cnt: "0 \<le> executions (metrics s)"
  shows "phase_coherence (snd (execute_quantum_emotion_cycle env s)) =
           (if \<not> raises (body env) then phase_at (clock (body env))
            else if \<not> raises (fallback env) then phase_at (clock (fallback env))
            else phase_coherence s)"
proof (cases "raises (body env)")
  case False
  with classical_cycle_phase [OF nq False len cnt] show ?thesis by (simp add: phase_at_def)
next
  case True
  let ?s3 = "s\<lparr>metrics := (metrics s)\<lparr>errors := errors (metrics s) + 1,
                  executions := executions (metrics s) + 1,
                  success_rate := real_of_int (executions (metrics s) + 1 - (errors (metrics s) + 1))
                      / real_of_int (max 1 (executions (metrics s) + 1)) * 100\<rparr>\<rparr>"
  note run = classical_failure_cycle [OF nq True]
  show ?thesis
  proof (cases "raises (fallback env)")
    case True
    with run \<open>raises (body env)\<close> show ?thesis
      by (simp add: classical_quantum_simulation_def)
  next
    case False
    from len have "length (emotional_vector ?s3) = 8" by simp
    from classical_quantum_simulation_runs [OF False this] obtain es where
      "classical_quantum_simulation (fallback env) ?s3 =
         (Inr True,
          update_avg_intensity
            (?s3\<lparr>quantum_intensity := classical_intensity (clock (fallback env)),
                 phase_coherence := np_angle (Complex (cos (clock (fallback env) * 0.1)) (sin (clock (fallback env) * 0.1))),
                 entanglement_measure := 0.3 + 0.1 * sin (clock (fallback env) * 0.02),
                 emotion_state := es\<rparr>))" ..
    with run False \<open>raises (body env)\<close> show ?thesis
      by (simp add: update_avg_intensity_def Let_def phase_at_def)
  qed
qed

lemma cycle_try_mode:
  "cycle_try env s = (r, s') \<Longrightarrow> qiskit_available s' = qiskit_available s"
proof (cases "qiskit_available s")
  case True
  assume a: "cycle_try env s = (r, s')"
  obtain b s1 where r: "real_quantum_simulation env s = (b, s1)"
    by (cases "real_quantum_simulation env s")
  from real_counters [OF r] a True r show ?thesis
    by (auto simp: cycle_try_def Let_def same_counters_def split: if_splits)
next
  case False
  assume a: "cycle_try env s = (r, s')"
  obtain r1 s1 where r: "classical_quantum_simulation (body env) s = (r1, s1)"
    by (cases "classical_quantum_simulation (body env) s")
  from classical_counters [OF r] a False r show ?thesis
    by (cases r1) (auto simp: cycle_try_def Let_def same_counters_def split: if_splits)
qed

lemma cycle_keeps:
  "qiskit_available (snd (execute_quantum_emotion_cycle env s)) = qiskit_available s \<and>
   emotional_vector (snd (execute_quantum_emotion_cycle env s)) = emotional_vector s"
proof (cases "cycle_try env s")
  case (Pair r s2)
  note m = cycle_try_mode [OF Pair] and v = cycle_try_vector [OF Pair]
  show ?thesis
  proof (cases r)
    case (Inr b)
    with Pair m v show ?thesis by (simp add: execute_quantum_emotion_cycle_def)
  next
    case (Inl e)
    obtain r' s' where c: "cycle_except env s2 = (r', s')" by (cases "cycle_except env s2")
    then have "classical_quantum_simulation (fallback env)
        (s2\<lparr>metrics := (metrics s2)\<lparr>errors := errors (metrics s2) + 1,
                  executions := executions (metrics s2) + 1,
                  success_rate := real_of_int (executions (metrics s2) + 1 - (errors (metrics s2) + 1))
                      / real_of_int (max 1 (executions (metrics s2) + 1)) * 100\<rparr>\<rparr>) = (r', s')"
      by (simp add: cycle_except_def Let_def)
    from classical_counters [OF this] classical_vector [OF this] m v Pair Inl c show ?thesis
      by (simp add: execute_quantum_emotion_cycle_def same_counters_def)
  qed
qed

lemma cycle_phase_ok:
  assumes ok: "phase_ok s" and cnt: "0 \<le> executions (metrics s)"
  shows "phase_ok (snd (execute_quantum_emotion_cycle env s))"
proof -
  from ok have len: "length (emotional_vector s) = 8" by (simp add: phase_ok_def)
  show ?thesis
  proof (cases "qiskit_available s")
    case True
    from sim_cycle_phase [OF True len cnt, of env] ok True
    have "0 \<le> phase_coherence (snd (execute_quantum_emotion_cycle env s))"
      using purity_unit_interval by (auto simp: phase_ok_def split: option.splits)
    with cycle_keeps [of env s] True len show ?thesis by (simp add: phase_ok_def)
  next
    case False
    from fallback_cycle_phase [OF False len cnt, of env] ok False
    have "- pi < phase_coherence (snd (execute_quantum_emotion_cycle env s)) \<and>
          phase_coherence (snd (execute_quantum_emotion_cycle env s)) \<le> pi"
      using np_angle_range by (auto simp: phase_ok_def phase_at_def)
    with cycle_keeps [of env s] False len show ?thesis by (simp add: phase_ok_def)
  qed
qed

lemma cycle_phase_unit:
  assumes q: "qiskit_available s" and len: "length (emotional_vector s) = 8"
    and cnt: "0 \<le> executions (metrics s)" and one: "phase_coherence s \<le> 1"
    and un: "unit_norm env"
  shows "phase_coherence (snd (execute_quantum_emotion_cycle env s)) \<le> 1"
proof (cases "qiskit env (emotional_vector s)")
  case None
  with sim_cycle_phase [OF q len cnt, of env] one show ?thesis by simp
next
  case (Some p)
  obtain sv eigs where p: "p = (sv, eigs)" by (cases p)
  from un Some p have "sum_list (map (\<lambda>a. (cmod a)\<^sup>2) sv) \<le> 1" by (auto simp: unit_norm_def)
  with purity_unit_interval [of sv] have "purity sv \<le> 1" by simp
  with sim_cycle_phase [OF q len cnt, of env] Some p show ?thesis by simp
qed

lemma handle_phase_ok:
  assumes "metrics_ok s" and "phase_ok s"
  shows "phase_ok (handle s r)"
proof (cases r)
  case (ApiMetrics env)
  with assms show ?thesis by (simp add: cycle_phase_ok metrics_ok_def)
next
  case (ApiFeel emotion env)
  let ?s = "s\<lparr>emotional_vector := (replicate 8 0)[index_of LIVE_EMOTIONS emotion := 1]\<rparr>"
  from assms have "phase_ok ?s" and "0 \<le> executions (metrics ?s)"
    by (simp_all add: phase_ok_def metrics_ok_def)
  with assms ApiFeel show ?thesis by (simp add: cycle_phase_ok)
next
  case (ApiReset e)
  then show ?thesis by (simp add: reset_def init_def phase_ok_def rng_random_def)
qed

lemma handle_phase_unit:
  assumes "metrics_ok s" and "phase_ok s" and "phase_unit s" and "unit_norm_request r"
  shows "phase_unit (handle s r)"
proof -
  have step: "phase_unit (snd (execute_quantum_emotion_cycle env t))"
    if "metrics_ok t" "phase_ok t" "phase_unit t" "unit_norm env" for env t
  proof (cases "qiskit_available t")
    case True
    from that True have "length (emotional_vector t) = 8" "0 \<le> executions (metrics t)"
      "phase_coherence t \<le> 1"
      by (simp_all add: phase_ok_def metrics_ok_def phase_unit_def)
    from cycle_phase_unit [OF True this that(4)] show ?thesis by (simp add: phase_unit_def)
  next
    case False
    with cycle_keeps [of env t] show ?thesis by (simp add: phase_unit_def)
  qed
  show ?thesis
  proof (cases r)
    case (ApiMetrics env)
    with assms step show ?thesis by simp
  next
    case (ApiFeel emotion env)
    let ?s = "s\<lparr>emotional_vector := (replicate 8 0)[index_of LIVE_EMOTIONS emotion := 1]\<rparr>"
    from assms have "metrics_ok ?s" "phase_ok ?s" "phase_unit ?s"
      by (simp_all add: phase_ok_def metrics_ok_def phase_unit_def)
    with assms ApiFeel step [of ?s env] show ?thesis by simp
  next
    case (ApiReset e)
    then show ?thesis by (simp add: reset_def init_def phase_unit_def)
  qed
qed

lemma foldl_phase_ok:
  "metrics_ok s \<Longrightarrow> phase_ok s \<Longrightarrow> phase_ok (foldl handle s rs)"
  by (induction rs arbitrary: s) (simp_all add: handle_ok handle_phase_ok)

lemma foldl_phase_unit:
  "metrics_ok s \<Longrightarrow> phase_ok s \<Longrightarrow> phase_unit s \<Longrightarrow> list_all unit_norm_request rs \<Longrightarrow>
   phase_unit (foldl handle s rs)"
  by (induction rs arbitrary: s) (simp_all add: handle_ok handle_phase_ok handle_phase_unit)

lemma init_phase_ok: "phase_ok (init e)"
  by (simp add: init_def phase_ok_def rng_random_def)

lemma init_phase_unit: "phase_unit (init e)"
  by (simp add: init_def phase_unit_def)

lemma serve_phase_ok: "phase_ok (serve e rs)"
  unfolding serve_def by (rule foldl_phase_ok [OF init_ok init_phase_ok])

lemma serve_phase_unit: "list_all unit_norm_request rs \<Longrightarrow> phase_unit (serve e rs)"
  unfolding serve_def by (rule foldl_phase_unit [OF init_ok init_phase_ok init_phase_unit])

text \<open>
  Claim C9, amended. After every evaluation cycle on a core reached from start-up by
  any requests:
  \<^item> in simulation mode \<^verbatim>\<open>phase_coherence\<close> is the purity of the state vector returned in
    this cycle, the square of the sum of its squared magnitudes, or keeps its value when
    the Qiskit calls raise; it is never negative, and it is at most 1 provided every
    state vector Qiskit returns has squared norm at most 1;
  \<^item> in fallback mode \<^verbatim>\<open>phase_coherence\<close> is \<^verbatim>\<open>np.angle\<close> of the unit complex number
    \<open>cos (0.1 t) + i sin (0.1 t)\<close>, where \<open>t\<close> is the clock reading of the classical
    simulation that ran (the one of the \<^verbatim>\<open>try\<close> block, or the one of the \<^verbatim>\<open>except\<close>
    clause when the \<^verbatim>\<open>try\<close> block raised), or keeps its value when both raise; it lies
    in \<open>(-\<pi>, \<pi>]\<close>, not in \<open>[0,1]\<close>.
\<close>

theorem phase_coherence_every_cycle:
  "let self = serve e rs; s' = snd (execute_quantum_emotion_cycle env self) in
     (qiskit_available self \<longrightarrow>
        phase_coherence s' =
          (case qiskit env (emotional_vector self) of
             None \<Rightarrow> phase_coherence self
           | Some (sv, eigs) \<Rightarrow> (sum_list (map (\<lambda>a. (cmod a)\<^sup>2) sv))\<^sup>2) \<and>
        0 \<le> phase_coherence s' \<and>
        (list_all unit_norm_request rs \<and> unit_norm env \<longrightarrow> phase_coherence s' \<le> 1)) \<and>
     (\<not> qiskit_available self \<longrightarrow>
        phase_coherence s' =
          (if \<not> raises (body env)
           then np_angle (Complex (cos (clock (body env) * 0.1)) (sin (clock (body env) * 0.1)))
           else if \<not> raises (fallback env)
           then np_angle (Complex (cos (clock (fallback env) * 0.1))
                                  (sin (clock (fallback env) * 0.1)))
           else phase_coherence self) \<and>
        - pi < phase_coherence s' \<and> phase_coherence s' \<le> pi)"
proof -
  define self where "self = serve e rs"
  define s' where "s' = snd (execute_quantum_emotion_cycle env self)"
  have ok: "phase_ok self" and m: "metrics_ok self"
    by (simp_all add: self_def serve_phase_ok serve_ok)
  then have len: "length (emotional_vector self) = 8" and cnt: "0 \<le> executions (metrics self)"
    by (simp_all add: phase_ok_def metrics_ok_def)
  from cycle_phase_ok [OF ok cnt, of env] cycle_keeps [of env self]
  have ok': "if qiskit_available self then 0 \<le> phase_coherence s'
             else - pi < phase_coherence s' \<and> phase_coherence s' \<le> pi"
    by (simp add: phase_ok_def s'_def)
  have sim: "phase_coherence s' =
          (case qiskit env (emotional_vector self) of
             None \<Rightarrow> phase_coherence self
           | Some (sv, eigs) \<Rightarrow> (sum_list (map (\<lambda>a. (cmod a)\<^sup>2) sv))\<^sup>2)"
    if q: "qiskit_available self"
    using sim_cycle_phase [OF q len cnt, of env]
    by (simp add: s'_def purity_eq split: option.splits)
  have unit: "phase_coherence s' \<le> 1"
    if q: "qiskit_available self" and u: "list_all unit_norm_request rs" "unit_norm env"
  proof -
    from serve_phase_unit [OF u(1), of e] q have "phase_coherence self \<le> 1"
      by (simp add: phase_unit_def self_def)
    from cycle_phase_unit [OF q len cnt this u(2)] show ?thesis by (simp add: s'_def)
  qed
  have fb: "phase_coherence s' =
          (if \<not> raises (body env)
           then np_angle (Complex (cos (clock (body env) * 0.1)) (sin (clock (body env) * 0.1)))
           else if \<not> raises (fallback env)
           then np_angle (Complex (cos (clock (fallback env) * 0.1))
                                  (sin (clock (fallback env) * 0.1)))
           else phase_coherence self)"
    if nq: "\<not> qiskit_available self"
    using fallback_cycle_phase [OF nq len cnt, of env] by (simp add: s'_def phase_at_def)
  from ok' sim unit fb show ?thesis
    unfolding Let_def self_def [symmetric] s'_def [symmetric] by auto
qed

theorem phase_coherence_every_cycle_witness:
  "qiskit_available (serve boot_sim []) \<and>
   list_all unit_norm_request [] \<and> unit_norm cycle_sim \<and>
   phase_coherence (snd (execute_quantum_emotion_cycle cycle_sim (serve boot_sim []))) = 1 \<and>
   \<not> qiskit_available (serve boot_classical []) \<and>
   phase_coherence (snd (execute_quantum_emotion_cycle (cycle_at 20) (serve boot_classical [])))
     = np_angle (Complex (cos 2) (sin 2)) \<and>
   - pi < phase_coherence (snd (execute_quantum_emotion_cycle (cycle_at 20) (serve boot_classical []))) \<and>
   phase_coherence (snd (execute_quantum_emotion_cycle (cycle_at 20) (serve boot_classical []))) \<le> pi"
proof -
  have q: "qiskit_available (serve boot_sim [])"
    by (simp add: serve_def init_def boot_sim_def)
  have u: "unit_norm cycle_sim" by (auto simp: unit_norm_def cycle_sim_def)
  have sv: "qiskit cycle_sim (emotional_vector (serve boot_sim [])) = Some ([1, 0], Some [1])"
    by (simp add: cycle_sim_def)
  have nq: "\<not> qiskit_available (serve boot_classical [])"
    by (simp add: serve_def init_def boot_classical_def boot_sim_def)
  have nr: "\<not> raises (body (cycle_at 20))" "clock (body (cycle_at 20)) = 20"
    by (simp_all add: cycle_at_def at_time_def)
  from phase_coherence_every_cycle [of boot_sim "[]" cycle_sim] q sv
  have one: "phase_coherence (snd (execute_quantum_emotion_cycle cycle_sim (serve boot_sim []))) = 1"
    by (simp add: Let_def)
  from phase_coherence_every_cycle [of boot_classical "[]" "cycle_at 20"] nq nr
  have "phase_coherence (snd (execute_quantum_emotion_cycle (cycle_at 20) (serve boot_classical [])))
     = np_angle (Complex (cos 2) (sin 2)) \<and>
   - pi < phase_coherence (snd (execute_quantum_emotion_cycle (cycle_at 20) (serve boot_classical []))) \<and>
   phase_coherence (snd (execute_quantum_emotion_cycle (cycle_at 20) (serve boot_classical []))) \<le> pi"
    by (simp add: Let_def)
  with q u one nq show ?thesis by simp
qed


section \<open>Ten cycles, two of them failing\<close>

text \<open>In fallback mode each cycle counts one execution, and one error when it raises.\<close>

lemma classical_step_counters:
  assumes nq: "\<not> qiskit_available s" and nr: "\<not> raises (fallback env)"
    and len: "length (emotional_vector s) = 8" and cnt: "0 \<le> executions (metrics s)"
  shows "executions (metrics (snd (execute_quantum_emotion_cycle env s))) = executions (metrics s) + 1 \<and>
         errors (metrics (snd (execute_quantum_emotion_cycle env s)))
           = errors (metrics s) + (if raises (body env) then 1 else 0) \<and>
         \<not> qiskit_available (snd (execute_quantum_emotion_cycle env s)) \<and>
         emotional_vector (snd (execute_quantum_emotion_cycle env s)) = emotional_vector s"
proof (cases "raises (body env)")
  case True
  let ?s3 = "s\<lparr>metrics := (metrics s)\<lparr>errors := errors (metrics s) + 1,
                  executions := executions (metrics s) + 1,
                  success_rate := real_of_int (executions (metrics s) + 1 - (errors (metrics s) + 1))
                      / real_of_int (max 1 (executions (metrics s) + 1)) * 100\<rparr>\<rparr>"
  from len have "length (emotional_vector ?s3) = 8" by simp
  from classical_quantum_simulation_runs [OF nr this] obtain es where
    "classical_quantum_simulation (fallback env) ?s3 =
       (Inr True,
        update_avg_intensity
          (?s3\<lparr>quantum_intensity := classical_intensity (clock (fallback env)),
               phase_coherence := np_angle (Complex (cos (clock (fallback env) * 0.1)) (sin (clock (fallback env) * 0.1))),
               entanglement_measure := 0.3 + 0.1 * sin (clock (fallback env) * 0.02),
               emotion_state := es\<rparr>))" ..
  with classical_failure_cycle [OF nq True] True nq show ?thesis
    by (simp add: update_avg_intensity_def Let_def)
next
  case False
  from classical_quantum_simulation_runs [OF False len] obtain es where
    "classical_quantum_simulation (body env) s =
           (Inr True,
            update_avg_intensity
              (s\<lparr>quantum_intensity := classical_intensity (clock (body env)),
                 phase_coherence := np_angle (Complex (cos (clock (body env) * 0.1)) (sin (clock (body env) * 0.1))),
                 entanglement_measure := 0.3 + 0.1 * sin (clock (body env) * 0.02),
                 emotion_state := es\<rparr>))" ..
  with nq cnt False show ?thesis
    by (simp add: execute_quantum_emotion_cycle_def cycle_try_def Let_def update_avg_intensity_def)
qed

lemma foldl_counts:
  assumes "fallback_run rs" and "\<not> qiskit_available s" and "length (emotional_vector s) = 8"
    and "0 \<le> executions (metrics s)"
  shows "executions (metrics (foldl handle s rs)) = executions (metrics s) + int (length rs) \<and>
         errors (metrics (foldl handle s rs)) = errors (metrics s) + failures rs"
  using assms
proof (induction rs arbitrary: s)
  case Nil
  then show ?case by simp
next
  case (Cons r rs)
  from Cons.prems(1) obtain env where r: "r = ApiMetrics env" and nr: "\<not> raises (fallback env)"
    and rest: "fallback_run rs"
    by (cases r) auto
  let ?s1 = "snd (execute_quantum_emotion_cycle env s)"
  from classical_step_counters [OF Cons.prems(2) nr Cons.prems(3) Cons.prems(4)]
  have st: "executions (metrics ?s1) = executions (metrics s) + 1"
    "errors (metrics ?s1) = errors (metrics s) + (if raises (body env) then 1 else 0)"
    "\<not> qiskit_available ?s1" "length (emotional_vector ?s1) = 8"
    using Cons.prems(3) by simp_all
  from st(1) Cons.prems(4) have "0 \<le> executions (metrics ?s1)" by simp
  from Cons.IH [OF rest st(3) st(4) this] st(1,2) r show ?case by simp
qed

theorem serve_errors_le_executions_witness:
  "errors (metrics ten_cycles) = 2 \<and> errors (metrics ten_cycles) \<le> executions (metrics ten_cycles)"
proof -
  have a: "\<not> qiskit_available (init boot_classical)"
    by (simp add: init_def boot_classical_def boot_sim_def)
  have b: "length (emotional_vector (init boot_classical)) = 8" by (simp add: init_def rng_random_def)
  have c: "0 \<le> executions (metrics (init boot_classical))" by (simp add: init_def)
  have d: "fallback_run [ApiMetrics (cycle_at 1), ApiMetrics (cycle_at 2), ApiMetrics (failing_at 3),
        ApiMetrics (cycle_at 4), ApiMetrics (cycle_at 5), ApiMetrics (cycle_at 6),
        ApiMetrics (failing_at 7), ApiMetrics (cycle_at 8), ApiMetrics (cycle_at 9),
        ApiMetrics (cycle_at 10)]"
    by (simp add: cycle_at_def failing_at_def at_time_def)
  from foldl_counts [OF d a b c]
  have two: "errors (metrics ten_cycles) = 2"
    by (simp add: ten_cycles_def serve_def init_def cycle_at_def failing_at_def at_time_def)
  have "errors (metrics ten_cycles) \<le> executions (metrics ten_cycles)"
    unfolding ten_cycles_def by (rule serve_errors_le_executions)
  with two show ?thesis by simp
qed

text \<open>The scenario of the specification: 10 executions, 2 errors, success rate 80.\<close>

theorem serve_success_rate_witness:
  "executions (metrics ten_cycles) = 10 \<and> errors (metrics ten_cycles) = 2 \<and>
   success_rate (metrics ten_cycles) = 80"
proof -
  have a: "\<not> qiskit_available (init boot_classical)"
    by (simp add: init_def boot_classical_def boot_sim_def)
  have b: "length (emotional_vector (init boot_classical)) = 8" by (simp add: init_def rng_random_def)
  have c: "0 \<le> executions (metrics (init boot_classical))" by (simp add: init_def)
  have d: "fallback_run [ApiMetrics (cycle_at 1), ApiMetrics (cycle_at 2), ApiMetrics (failing_at 3),
        ApiMetrics (cycle_at 4), ApiMetrics (cycle_at 5), ApiMetrics (cycle_at 6),
        ApiMetrics (failing_at 7), ApiMetrics (cycle_at 8), ApiMetrics (cycle_at 9),
        ApiMetrics (cycle_at 10)]"
    by (simp add: cycle_at_def failing_at_def at_time_def)
  from foldl_counts [OF d a b c]
  have e: "executions (metrics ten_cycles) = 10" "errors (metrics ten_cycles) = 2"
    by (simp_all add: ten_cycles_def serve_def init_def cycle_at_def failing_at_def at_time_def)
  with serve_success_rate [of boot_classical] show ?thesis
    by (simp add: ten_cycles_def)
qed

end
